theory Spec2Isabelle
  imports Main
begin

section \<open>Data model\<close>

text \<open>
  Timestamps are the values of SQLite's \<^verbatim>\<open>CURRENT_TIMESTAMP\<close>. The text
  \<^verbatim>\<open>YYYY-MM-DD HH:MM:SS\<close> has a fixed width, so comparing two of them as text
  compares the instants they denote; an instant is modelled as a number of seconds.
  Every operation that writes \<^verbatim>\<open>CURRENT_TIMESTAMP\<close> takes the clock reading
  as its first argument.
\<close>

type_synonym timestamp = nat

datatype Status = Pending | Processing | Completed | Failed

text \<open>
  A row of the table \<^verbatim>\<open>jobs\<close> (interface \<^verbatim>\<open>Job\<close> of queue.ts). The column
  \<^verbatim>\<open>tags\<close> holds \<^verbatim>\<open>JSON.stringify(tags)\<close> of a string array and is read back
  with \<^verbatim>\<open>JSON.parse\<close>; it is modelled by the array itself. The column
  \<^verbatim>\<open>attempts\<close> starts at 0 and is only ever incremented.
\<close>

record Job =
  job_id :: nat
  job_transactionId :: string
  job_merchantName :: string
  job_description :: string
  job_amount :: string
  job_tags :: "string list"
  job_status :: Status
  job_attempts :: nat
  job_error :: "string option"
  job_createdAt :: timestamp
  job_updatedAt :: timestamp

text \<open>The table \<^verbatim>\<open>jobs\<close>: its rows in rowid order. No row is ever deleted.\<close>

type_synonym jobs_table = "Job list"

text \<open>Interfaces \<^verbatim>\<open>Category\<close> and \<^verbatim>\<open>TransactionInfo\<close> of firefly.ts.\<close>

record Category =
  cat_id :: string
  cat_name :: string

record TransactionInfo =
  tx_id :: string
  tx_description :: string
  tx_destinationName :: string
  tx_categoryId :: "string option"
  tx_categoryName :: "string option"
  tx_amount :: string
  tx_date :: string

text \<open>
  A row of the table \<^verbatim>\<open>merchant_categories\<close>. The column \<^verbatim>\<open>merchant_name\<close>
  is \<^verbatim>\<open>UNIQUE\<close>, so the table is a map from merchant names to the other columns.
\<close>

record CachedCategory =
  cc_categoryName :: string
  cc_categoryId :: string
  cc_createdAt :: timestamp
  cc_updatedAt :: timestamp

type_synonym cache_table = "string \<rightharpoonup> CachedCategory"

text \<open>Type \<^verbatim>\<open>CategoryDecision\<close> of worker.ts: category id first, then category name.\<close>

datatype CategoryDecision =
    Cache string string
  | FireflyOverride string string
  | Llm string string
  | Skip string

datatype Confidence = High | Medium | Low

record LLMResponse =
  llm_category :: "string option"
  llm_confidence :: Confidence
  llm_reasoning :: string


section \<open>QueueService\<close>

text \<open>\<^verbatim>\<open>UPDATE jobs SET ... WHERE ...\<close>: the rows that satisfy the condition are rewritten in place.\<close>

definition sql_update :: "(Job \<Rightarrow> bool) \<Rightarrow> (Job \<Rightarrow> Job) \<Rightarrow> jobs_table \<Rightarrow> jobs_table" where
  "sql_update cond upd jobs = map (\<lambda>j. if cond j then upd j else j) jobs"

text \<open>\<^verbatim>\<open>SELECT ... WHERE id = ?\<close> with \<^verbatim>\<open>.get\<close>: the first row with that id, if any.\<close>

definition job_by_id :: "nat \<Rightarrow> jobs_table \<Rightarrow> Job option" where
  "job_by_id jobId jobs = find (\<lambda>j. job_id j = jobId) jobs"

text \<open>
  \<^verbatim>\<open>QueueService.init\<close>, run once by the constructor of the singleton
  \<^verbatim>\<open>queueService\<close>: the rows stuck in \<^verbatim>\<open>processing\<close> go back to \<^verbatim>\<open>pending\<close>.
  \<^verbatim>\<open>init_changes\<close> is \<^verbatim>\<open>reset.changes\<close>, the number of rows the statement rewrote.
\<close>

definition init :: "timestamp \<Rightarrow> jobs_table \<Rightarrow> jobs_table" where
  "init now jobs =
     sql_update (\<lambda>j. job_status j = Processing)
       (\<lambda>j. j\<lparr>job_status := Pending, job_updatedAt := now\<rparr>) jobs"

definition init_changes :: "jobs_table \<Rightarrow> nat" where
  "init_changes jobs = length (filter (\<lambda>j. job_status j = Processing) jobs)"

text \<open>
  \<^verbatim>\<open>QueueService.enqueue\<close>. \<^verbatim>\<open>AUTOINCREMENT\<close> gives the new row an id one above
  the largest id in use (rows are never deleted); the other columns take their defaults.
\<close>

definition next_id :: "jobs_table \<Rightarrow> nat" where
  "next_id jobs = Suc (foldr max (map job_id jobs) 0)"

definition enqueue ::
  "timestamp \<Rightarrow> string \<Rightarrow> string \<Rightarrow> string \<Rightarrow> string \<Rightarrow> string list \<Rightarrow> jobs_table
     \<Rightarrow> nat \<times> jobs_table" where
  "enqueue now transactionId merchantName description amount tags jobs =
     (let jobId = next_id jobs in
      (jobId,
       jobs @ [\<lparr>job_id = jobId, job_transactionId = transactionId,
                job_merchantName = merchantName, job_description = description,
                job_amount = amount, job_tags = tags, job_status = Pending,
                job_attempts = 0, job_error = None,
                job_createdAt = now, job_updatedAt = now\<rparr>]))"

text \<open>
  \<^verbatim>\<open>ORDER BY created_at ASC LIMIT 1\<close> over the pending rows: the row with the least
  \<^verbatim>\<open>created_at\<close>; among rows created in the same second, the one met first in rowid order.
\<close>

fun oldest :: "Job \<Rightarrow> Job list \<Rightarrow> Job" where
  "oldest row [] = row"
| "oldest row (j # js) = oldest (if job_createdAt j < job_createdAt row then j else row) js"

text \<open>
  \<^verbatim>\<open>QueueService.dequeue\<close>. The row is read first and updated afterwards; the returned
  object is built from the row as it was read, with \<^verbatim>\<open>attempts: row.attempts + 1\<close>
  and every other field (\<^verbatim>\<open>status: row.status\<close> and \<^verbatim>\<open>updatedAt: row.updated_at\<close>
  among them) as read.
\<close>

definition dequeue :: "timestamp \<Rightarrow> jobs_table \<Rightarrow> Job option \<times> jobs_table" where
  "dequeue now jobs =
     (case filter (\<lambda>j. job_status j = Pending) jobs of
        [] \<Rightarrow> (None, jobs)
      | p # ps \<Rightarrow>
          (let row = oldest p ps in
           (Some (row\<lparr>job_attempts := job_attempts row + 1\<rparr>),
            sql_update (\<lambda>j. job_id j = job_id row)
              (\<lambda>j. j\<lparr>job_status := Processing, job_attempts := job_attempts j + 1,
                     job_updatedAt := now\<rparr>) jobs)))"

text \<open>\<^verbatim>\<open>QueueService.complete\<close>: the update has no condition on the status.\<close>

definition complete :: "timestamp \<Rightarrow> nat \<Rightarrow> jobs_table \<Rightarrow> jobs_table" where
  "complete now jobId jobs =
     sql_update (\<lambda>j. job_id j = jobId)
       (\<lambda>j. j\<lparr>job_status := Completed, job_updatedAt := now\<rparr>) jobs"

text \<open>\<^verbatim>\<open>QueueService.fail\<close>; \<^verbatim>\<open>job?.attempts ?? 0\<close> is 0 when no row has the id.\<close>

definition fail :: "timestamp \<Rightarrow> nat \<Rightarrow> string \<Rightarrow> nat \<Rightarrow> jobs_table \<Rightarrow> jobs_table" where
  "fail now jobId err maxRetries jobs =
     (let attempts = (case job_by_id jobId jobs of None \<Rightarrow> 0 | Some job \<Rightarrow> job_attempts job) in
      if attempts < maxRetries then
        sql_update (\<lambda>j. job_id j = jobId)
          (\<lambda>j. j\<lparr>job_status := Pending, job_error := Some err, job_updatedAt := now\<rparr>) jobs
      else
        sql_update (\<lambda>j. job_id j = jobId)
          (\<lambda>j. j\<lparr>job_status := Failed, job_error := Some err, job_updatedAt := now\<rparr>) jobs)"

text \<open>The default of the parameter \<^verbatim>\<open>maxRetries\<close>.\<close>

definition defaultMaxRetries :: nat where
  "defaultMaxRetries = 3"

definition getPendingCount :: "jobs_table \<Rightarrow> nat" where
  "getPendingCount jobs = length (filter (\<lambda>j. job_status j = Pending) jobs)"


section \<open>CacheService\<close>

definition cache_get :: "cache_table \<Rightarrow> string \<Rightarrow> CachedCategory option" where
  "cache_get cache merchantName = cache merchantName"

text \<open>\<^verbatim>\<open>INSERT ... ON CONFLICT(merchant_name) DO UPDATE\<close>: an existing row keeps its \<^verbatim>\<open>created_at\<close>.\<close>

definition cache_set ::
  "timestamp \<Rightarrow> string \<Rightarrow> string \<Rightarrow> string \<Rightarrow> cache_table \<Rightarrow> cache_table" where
  "cache_set now merchantName categoryName categoryId cache =
     (case cache merchantName of
        None \<Rightarrow>
          cache(merchantName \<mapsto>
            \<lparr>cc_categoryName = categoryName, cc_categoryId = categoryId,
             cc_createdAt = now, cc_updatedAt = now\<rparr>)
      | Some row \<Rightarrow>
          cache(merchantName \<mapsto>
            row\<lparr>cc_categoryName := categoryName, cc_categoryId := categoryId,
                cc_updatedAt := now\<rparr>))"

definition updateFromOverride ::
  "timestamp \<Rightarrow> string \<Rightarrow> string \<Rightarrow> string \<Rightarrow> cache_table \<Rightarrow> cache_table" where
  "updateFromOverride now merchantName categoryName categoryId cache =
     (case cache merchantName of
        None \<Rightarrow> cache
      | Some row \<Rightarrow>
          cache(merchantName \<mapsto>
            row\<lparr>cc_categoryName := categoryName, cc_categoryId := categoryId,
                cc_updatedAt := now\<rparr>))"

definition invalidate :: "string \<Rightarrow> cache_table \<Rightarrow> cache_table" where
  "invalidate merchantName cache = cache(merchantName := None)"


section \<open>Strings\<close>

text \<open>
  A text is a list of characters; a (well-formed) text outside ASCII is the list of the bytes
  of its UTF-8 form. Equality of texts is equality of the lists and \<^verbatim>\<open>includes\<close>
  is contiguous containment.

  \<^verbatim>\<open>String.prototype.toLowerCase\<close> and \<^verbatim>\<open>String.prototype.trim\<close> are built-ins
  of the language whose results depend on the Unicode tables. They are not defined here: every
  definition that calls them takes them as the parameters \<^verbatim>\<open>toLowerCase\<close> and
  \<^verbatim>\<open>trim\<close>, and the environment of a job (record \<^verbatim>\<open>Env\<close> below) carries them. What
  is proved holds for every case folding and every trimming, those of JavaScript among them.
\<close>

definition isQuote :: "char \<Rightarrow> bool" where
  "isQuote c = (c = CHR 0x22 \<or> c = CHR 0x27)"

text \<open>\<^verbatim>\<open>replace(/^["']|["']$/g, "")\<close>: a quote at the start goes, then a quote at the end.\<close>

definition stripQuotes :: "string \<Rightarrow> string" where
  "stripQuotes s =
     (let s1 = (case s of [] \<Rightarrow> [] | c # cs \<Rightarrow> if isQuote c then cs else s) in
      if s1 \<noteq> [] \<and> isQuote (last s1) then butlast s1 else s1)"

text \<open>
  The two built-ins on ASCII texts, for the concrete examples below (whose texts are all
  ASCII): there \<^verbatim>\<open>toLowerCase\<close> changes exactly the letters A to Z, and \<^verbatim>\<open>trim\<close>
  removes exactly tab, line feed, vertical tab, form feed, carriage return and space at both
  ends. No general statement is about these two instances.
\<close>

definition asciiWhiteSpace :: "char \<Rightarrow> bool" where
  "asciiWhiteSpace c = (c \<in> set [CHR 0x09, CHR 0x0A, CHR 0x0B, CHR 0x0C, CHR 0x0D, CHR 0x20])"

definition asciiTrim :: "string \<Rightarrow> string" where
  "asciiTrim s = rev (dropWhile asciiWhiteSpace (rev (dropWhile asciiWhiteSpace s)))"

definition asciiLowerChar :: "char \<Rightarrow> char" where
  "asciiLowerChar c =
     (case map_of (zip ''ABCDEFGHIJKLMNOPQRSTUVWXYZ'' ''abcdefghijklmnopqrstuvwxyz'') c of
        None \<Rightarrow> c
      | Some l \<Rightarrow> l)"

definition asciiLowerCase :: "string \<Rightarrow> string" where
  "asciiLowerCase s = map asciiLowerChar s"

fun startsWith :: "string \<Rightarrow> string \<Rightarrow> bool" where
  "startsWith s [] = True"
| "startsWith [] (p # ps) = False"
| "startsWith (c # cs) (p # ps) = (c = p \<and> startsWith cs ps)"

text \<open>\<^verbatim>\<open>s.includes(t)\<close>: \<^verbatim>\<open>t\<close> occurs in \<^verbatim>\<open>s\<close> as a contiguous run.\<close>

fun str_includes :: "string \<Rightarrow> string \<Rightarrow> bool" where
  "str_includes [] t = (t = [])"
| "str_includes (c # cs) t = (startsWith (c # cs) t \<or> str_includes cs t)"

text \<open>Truthiness of \<^verbatim>\<open>string | null | undefined\<close>: the empty string is falsy too.\<close>

fun truthy :: "string option \<Rightarrow> bool" where
  "truthy None = False"
| "truthy (Some s) = (s \<noteq> [])"


section \<open>LLMService\<close>

text \<open>
  The texts \<^verbatim>\<open>Partial match: "cleaned" -> "partialMatch"\<close> (the arrow of the source is
  written \<^verbatim>\<open>->\<close> here) and \<^verbatim>\<open>Invalid response: "cleaned"\<close>.
\<close>

definition partialReasoning :: "string \<Rightarrow> string \<Rightarrow> string" where
  "partialReasoning cleaned partialMatch =
     ''Partial match: '' @ [CHR 0x22] @ cleaned @ [CHR 0x22] @ '' -> '' @
     [CHR 0x22] @ partialMatch @ [CHR 0x22]"

definition invalidReasoning :: "string \<Rightarrow> string" where
  "invalidReasoning cleaned = ''Invalid response: '' @ [CHR 0x22] @ cleaned @ [CHR 0x22]"

text \<open>
  \<^verbatim>\<open>LLMService.parseResponse\<close>, with the two built-ins as its first parameters. Both
  \<^verbatim>\<open>if (exactMatch)\<close> and \<^verbatim>\<open>if (partialMatch)\<close> test truthiness, so a match
  that is the empty string counts as no match. \<^verbatim>\<open>cleanResponse\<close> is the constant
  \<^verbatim>\<open>cleaned\<close> of the source.
\<close>

definition cleanResponse :: "(string \<Rightarrow> string) \<Rightarrow> string \<Rightarrow> string" where
  "cleanResponse trim content = stripQuotes (trim content)"

definition parseResponse ::
  "(string \<Rightarrow> string) \<Rightarrow> (string \<Rightarrow> string) \<Rightarrow> string \<Rightarrow> string list \<Rightarrow> LLMResponse" where
  "parseResponse toLowerCase trim content validCategories =
     (let cleaned = cleanResponse trim content;
          exactMatch = find (\<lambda>c. toLowerCase c = toLowerCase cleaned) validCategories
      in
      if truthy exactMatch then
        \<lparr>llm_category = exactMatch, llm_confidence = High,
         llm_reasoning = ''Exact match from LLM''\<rparr>
      else
        (let partialMatch =
           find (\<lambda>c. str_includes (toLowerCase c) (toLowerCase cleaned) \<or>
                     str_includes (toLowerCase cleaned) (toLowerCase c)) validCategories
         in
         if truthy partialMatch then
           \<lparr>llm_category = partialMatch, llm_confidence = Medium,
            llm_reasoning = partialReasoning cleaned (the partialMatch)\<rparr>
         else
           \<lparr>llm_category = None, llm_confidence = Low,
            llm_reasoning = invalidReasoning cleaned\<rparr>))"

text \<open>
  \<^verbatim>\<open>LLMService.categorize\<close>. The prompts go to the remote model; its answer (the text
  \<^verbatim>\<open>content\<close>, or the error the request raised) is a given of the environment.
\<close>

definition categorize ::
  "(string \<Rightarrow> string) \<Rightarrow> (string \<Rightarrow> string) \<Rightarrow> Category list \<Rightarrow> string + string
     \<Rightarrow> string + LLMResponse" where
  "categorize toLowerCase trim categories answer =
     (let categoryNames = map cat_name categories in
      case answer of
        Inl err \<Rightarrow> Inl err
      | Inr content \<Rightarrow> Inr (parseResponse toLowerCase trim content categoryNames))"


section \<open>Worker\<close>

text \<open>
  The environment of the processing of one job: the two string built-ins of the language, and
  what the collaborators answer. \<^verbatim>\<open>Inl\<close> is the message of the error a call raises.
  \<^verbatim>\<open>searchMerchant\<close> catches its own errors and its result only enters the prompt.
\<close>

record Env =
  env_toLowerCase :: "string \<Rightarrow> string"
  env_trim :: "string \<Rightarrow> string"
  env_getCategories :: "string + Category list"
  env_recentTxnsOnHit :: "string + TransactionInfo list"
  env_recentTxnsForLlm :: "string + TransactionInfo list"
  env_llmAnswer :: "string + string"
  env_updateError :: "string option"
  env_tag :: string
  env_now :: timestamp

text \<open>\<^verbatim>\<open>analyzeHistory\<close>. The filter tests the truthiness of both fields.\<close>

definition categorizedTxns :: "TransactionInfo list \<Rightarrow> TransactionInfo list" where
  "categorizedTxns recentTxns =
     filter (\<lambda>tx. truthy (tx_categoryId tx) \<and> truthy (tx_categoryName tx)) recentTxns"

definition analyzeHistory :: "CachedCategory \<Rightarrow> TransactionInfo list \<Rightarrow> CategoryDecision" where
  "analyzeHistory cached recentTxns =
     (case categorizedTxns recentTxns of
        [] \<Rightarrow> Cache (cc_categoryId cached) (cc_categoryName cached)
      | mostRecent # rest \<Rightarrow>
          if list_all (\<lambda>tx. tx_categoryName tx = Some (cc_categoryName cached)) (mostRecent # rest)
          then Cache (cc_categoryId cached) (cc_categoryName cached)
          else if list_all (\<lambda>tx. tx_categoryName tx \<noteq> Some (cc_categoryName cached))
                    (mostRecent # rest)
          then FireflyOverride (the (tx_categoryId mostRecent)) (the (tx_categoryName mostRecent))
          else Cache (cc_categoryId cached) (cc_categoryName cached))"

definition notFoundReason :: "string \<Rightarrow> string" where
  "notFoundReason name = ''Category '' @ [CHR 0x22] @ name @ [CHR 0x22] @ '' not found''"

text \<open>
  Step 3 of \<^verbatim>\<open>decideCategory\<close> (from \<^verbatim>\<open>Querying LLM for categorization\<close> to the
  end of the function), reached on a cache miss, after an invalidation and after a discarded
  override. The result is the cache table it leaves and the decision or the error raised.
\<close>

definition llmPath ::
  "Env \<Rightarrow> Category list \<Rightarrow> string \<Rightarrow> cache_table \<Rightarrow> cache_table \<times> (string + CategoryDecision)"
where
  "llmPath env categories merchantName cache =
     (case env_recentTxnsForLlm env of
        Inl err \<Rightarrow> (cache, Inl err)
      | Inr recentTxns \<Rightarrow>
          (case categorize (env_toLowerCase env) (env_trim env) categories (env_llmAnswer env) of
             Inl err \<Rightarrow> (cache, Inl err)
           | Inr llmResult \<Rightarrow>
               if \<not> truthy (llm_category llmResult) then
                 (cache, Inr (Skip ''LLM could not determine category''))
               else
                 (case find (\<lambda>c. Some (cat_name c) = llm_category llmResult) categories of
                    None \<Rightarrow> (cache, Inr (Skip (notFoundReason (the (llm_category llmResult)))))
                  | Some category \<Rightarrow>
                      (cache_set (env_now env) merchantName (cat_name category)
                         (cat_id category) cache,
                       Inr (Llm (cat_id category) (cat_name category))))))"

text \<open>
  \<^verbatim>\<open>decideCategory\<close>. The description and the amount of the job only enter the prompt.
\<close>

definition decideCategory ::
  "Env \<Rightarrow> string \<Rightarrow> cache_table \<Rightarrow> cache_table \<times> (string + CategoryDecision)" where
  "decideCategory env merchantName cache =
     (case env_getCategories env of
        Inl err \<Rightarrow> (cache, Inl err)
      | Inr categories \<Rightarrow>
          if categories = [] then (cache, Inr (Skip ''No categories configured in Firefly''))
          else
            (case cache_get cache merchantName of
               None \<Rightarrow> llmPath env categories merchantName cache
             | Some cached \<Rightarrow>
                 if \<not> list_ex (\<lambda>c. cat_id c = cc_categoryId cached) categories then
                   llmPath env categories merchantName (invalidate merchantName cache)
                 else
                   (case env_recentTxnsOnHit env of
                      Inl err \<Rightarrow> (cache, Inl err)
                    | Inr recentTxns \<Rightarrow>
                        (case analyzeHistory cached recentTxns of
                           FireflyOverride categoryId categoryName \<Rightarrow>
                             if list_ex (\<lambda>c. cat_id c = categoryId) categories then
                               (updateFromOverride (env_now env) merchantName categoryName
                                  categoryId cache,
                                Inr (FireflyOverride categoryId categoryName))
                             else llmPath env categories merchantName cache
                         | decision \<Rightarrow> (cache, Inr decision)))))"

text \<open>
  A call of \<^verbatim>\<open>fireflyService.updateTransactionCategory\<close>: the transaction id, the
  category id and the tags sent (the configured tag is appended when it is not there yet).
\<close>

record UpdateCall =
  upd_transactionId :: string
  upd_categoryId :: string
  upd_tags :: "string list"

definition updateTransactionCategory ::
  "Env \<Rightarrow> string \<Rightarrow> string \<Rightarrow> string list \<Rightarrow> UpdateCall \<times> (string + unit)" where
  "updateTransactionCategory env transactionId categoryId existingTags =
     (let tags = (if env_tag env \<in> set existingTags then existingTags
                  else existingTags @ [env_tag env])
      in
      (\<lparr>upd_transactionId = transactionId, upd_categoryId = categoryId, upd_tags = tags\<rparr>,
       case env_updateError env of None \<Rightarrow> Inr () | Some err \<Rightarrow> Inl err))"

text \<open>
  \<^verbatim>\<open>processJob\<close>: the cache table it leaves, the calls of the update collaborator it
  made, and whether it returned (\<^verbatim>\<open>Inr\<close>) or raised (\<^verbatim>\<open>Inl\<close>).
\<close>

definition applyDecision ::
  "Env \<Rightarrow> Job \<Rightarrow> string \<Rightarrow> UpdateCall list \<times> (string + unit)" where
  "applyDecision env job categoryId =
     (let (call, res) =
        updateTransactionCategory env (job_transactionId job) categoryId (job_tags job)
      in ([call], res))"

definition processJob ::
  "Env \<Rightarrow> cache_table \<Rightarrow> Job \<Rightarrow> cache_table \<times> UpdateCall list \<times> (string + unit)" where
  "processJob env cache job =
     (case decideCategory env (job_merchantName job) cache of
        (cache', Inl err) \<Rightarrow> (cache', [], Inl err)
      | (cache', Inr decision) \<Rightarrow>
          (case decision of
             Skip reason \<Rightarrow> (cache', [], Inr ())
           | Cache categoryId categoryName \<Rightarrow> (cache', applyDecision env job categoryId)
           | FireflyOverride categoryId categoryName \<Rightarrow> (cache', applyDecision env job categoryId)
           | Llm categoryId categoryName \<Rightarrow> (cache', applyDecision env job categoryId)))"

text \<open>
  One run of \<^verbatim>\<open>poll\<close> in \<^verbatim>\<open>startWorker\<close>: the job claimed (if any), the two tables
  afterwards and the update calls made. \<^verbatim>\<open>claimedAt\<close> is the clock at the dequeue,
  \<^verbatim>\<open>resolvedAt\<close> the clock at \<^verbatim>\<open>complete\<close> or \<^verbatim>\<open>fail\<close>.
\<close>

definition poll ::
  "Env \<Rightarrow> timestamp \<Rightarrow> timestamp \<Rightarrow> jobs_table \<times> cache_table
     \<Rightarrow> Job option \<times> jobs_table \<times> cache_table \<times> UpdateCall list" where
  "poll env claimedAt resolvedAt s =
     (case dequeue claimedAt (fst s) of
        (None, jobs') \<Rightarrow> (None, jobs', snd s, [])
      | (Some job, jobs') \<Rightarrow>
          (case processJob env (snd s) job of
             (cache', calls, Inr u) \<Rightarrow>
               (Some job, complete resolvedAt (job_id job) jobs', cache', calls)
           | (cache', calls, Inl err) \<Rightarrow>
               (Some job, fail resolvedAt (job_id job) err defaultMaxRetries jobs', cache',
                calls)))"

text \<open>
  The events that change the two tables: the webhook enqueues a job, the worker polls, and
  the process is started again (the constructor of the queue service runs \<^verbatim>\<open>init\<close>).
  \<^verbatim>\<open>run\<close> gives the jobs claimed during a sequence of events, in order, and the
  tables at its end.
\<close>

datatype Event =
    Enqueue timestamp string string string string "string list"
  | Poll Env timestamp timestamp
  | Restart timestamp

fun step :: "Event \<Rightarrow> jobs_table \<times> cache_table \<Rightarrow> Job option \<times> (jobs_table \<times> cache_table)" where
  "step (Enqueue now transactionId merchantName description amount tags) s =
     (None, (snd (enqueue now transactionId merchantName description amount tags (fst s)), snd s))"
| "step (Poll env claimedAt resolvedAt) s =
     (case poll env claimedAt resolvedAt s of
        (claimed, jobs', cache', calls) \<Rightarrow> (claimed, (jobs', cache')))"
| "step (Restart now) s = (None, (init now (fst s), snd s))"

fun run :: "Event list \<Rightarrow> jobs_table \<times> cache_table \<Rightarrow> Job list \<times> (jobs_table \<times> cache_table)" where
  "run [] s = ([], s)"
| "run (e # es) s =
     (case step e s of
        (claimed, s') \<Rightarrow>
          (case run es s' of
             (later, s'') \<Rightarrow> ((case claimed of None \<Rightarrow> [] | Some job \<Rightarrow> [job]) @ later, s'')))"


section \<open>The resolution rule in the words of the specification\<close>

text \<open>
  The proposed name is compared with the category names without regard to case (both sides
  folded with \<^verbatim>\<open>toLowerCase\<close>); the first category that is equal wins, and when there is
  none, the first category whose name contains the proposed name or is contained in it.
\<close>

definition spec_resolve ::
  "(string \<Rightarrow> string) \<Rightarrow> string \<Rightarrow> Category list \<Rightarrow> Category option" where
  "spec_resolve toLowerCase proposed categories =
     (case find (\<lambda>c. toLowerCase (cat_name c) = toLowerCase proposed) categories of
        Some c \<Rightarrow> Some c
      | None \<Rightarrow>
          find (\<lambda>c. str_includes (toLowerCase (cat_name c)) (toLowerCase proposed) \<or>
                    str_includes (toLowerCase proposed) (toLowerCase (cat_name c))) categories)"


section \<open>Facts about the job table\<close>

lemma sql_update_ids: "(\<And>j. job_id (upd j) = job_id j) \<Longrightarrow> map job_id (sql_update cond upd jobs) = map job_id jobs"
  by (induction jobs) (simp_all add: sql_update_def)

lemma job_by_id_sql_update_same:
  "job_by_id k jobs = Some j \<Longrightarrow> job_id (upd j) = k
     \<Longrightarrow> job_by_id k (sql_update (\<lambda>j. job_id j = k) upd jobs) = Some (upd j)"
  by (induction jobs) (auto simp: sql_update_def job_by_id_def)

lemma job_by_id_sql_update_other:
  "(\<And>j. job_id (upd j) = job_id j) \<Longrightarrow> k \<noteq> i
     \<Longrightarrow> job_by_id k (sql_update (\<lambda>j. job_id j = i) upd jobs) = job_by_id k jobs"
  by (induction jobs) (auto simp: sql_update_def job_by_id_def)

lemma sql_update_absent:
  "job_by_id i jobs = None \<Longrightarrow> sql_update (\<lambda>j. job_id j = i) upd jobs = jobs"
  by (induction jobs) (auto simp: sql_update_def job_by_id_def split: if_splits)

lemma job_by_id_Some_id: "job_by_id k jobs = Some j \<Longrightarrow> job_id j = k \<and> j \<in> set jobs"
  by (induction jobs) (auto simp: job_by_id_def split: if_splits)

lemma job_by_id_distinct:
  "distinct (map job_id jobs) \<Longrightarrow> j \<in> set jobs \<Longrightarrow> job_by_id (job_id j) jobs = Some j"
  by (induction jobs) (auto simp: job_by_id_def)

lemma job_by_id_present: "j \<in> set jobs \<Longrightarrow> \<exists>r. job_by_id (job_id j) jobs = Some r"
  by (induction jobs) (auto simp: job_by_id_def)

lemma oldest_in: "oldest p ps \<in> set (p # ps)"
  by (induction ps arbitrary: p) auto

lemma oldest_least: "j \<in> set (p # ps) \<Longrightarrow> job_createdAt (oldest p ps) \<le> job_createdAt j"
proof (induction ps arbitrary: p j)
  case Nil
  then show ?case by simp
next
  case (Cons a ps)
  have le: "job_createdAt (oldest (if job_createdAt a < job_createdAt p then a else p) ps)
              \<le> job_createdAt (if job_createdAt a < job_createdAt p then a else p)"
    using Cons.IH[of "if job_createdAt a < job_createdAt p then a else p" "if job_createdAt a < job_createdAt p then a else p"] by simp
  from Cons.prems consider "j = p" | "j = a" | "j \<in> set ps" by auto
  then show ?case
  proof cases
    case 1 with le show ?thesis by (auto split: if_splits)
  next
    case 2 with le show ?thesis by (auto split: if_splits)
  next
    case 3 then show ?thesis using Cons.IH[of j "if job_createdAt a < job_createdAt p then a else p"] by simp
  qed
qed

lemma dequeue_None:
  "(\<forall>j \<in> set jobs. job_status j \<noteq> Pending) \<Longrightarrow> dequeue now jobs = (None, jobs)"
  by (simp add: dequeue_def filter_empty_conv[THEN iffD2])

lemma dequeue_Some:
  assumes "dequeue now jobs = (Some job, jobs')"
  shows "\<exists>row \<in> set jobs. job_status row = Pending \<and>
           (\<forall>j \<in> set jobs. job_status j = Pending \<longrightarrow> job_createdAt row \<le> job_createdAt j) \<and>
           job = row\<lparr>job_attempts := job_attempts row + 1\<rparr> \<and>
           jobs' = sql_update (\<lambda>j. job_id j = job_id row)
                     (\<lambda>j. j\<lparr>job_status := Processing, job_attempts := job_attempts j + 1,
                            job_updatedAt := now\<rparr>) jobs"
proof (cases "filter (\<lambda>j. job_status j = Pending) jobs")
  case Nil
  with assms show ?thesis by (simp add: dequeue_def)
next
  case (Cons p ps)
  let ?row = "oldest p ps"
  have mem: "?row \<in> set (filter (\<lambda>j. job_status j = Pending) jobs)"
    using oldest_in[of p ps] Cons by simp
  have least: "\<forall>j \<in> set jobs. job_status j = Pending \<longrightarrow> job_createdAt ?row \<le> job_createdAt j"
  proof (intro ballI impI)
    fix j assume "j \<in> set jobs" "job_status j = Pending"
    then have "j \<in> set (p # ps)" using Cons[symmetric] by simp
    then show "job_createdAt ?row \<le> job_createdAt j" by (rule oldest_least)
  qed
  from assms Cons have "job = ?row\<lparr>job_attempts := job_attempts ?row + 1\<rparr>"
    and "jobs' = sql_update (\<lambda>j. job_id j = job_id ?row)
                     (\<lambda>j. j\<lparr>job_status := Processing, job_attempts := job_attempts j + 1,
                            job_updatedAt := now\<rparr>) jobs"
    by (simp_all add: dequeue_def Let_def)
  with mem least show ?thesis by auto
qed

lemma claim_then_fail:
  assumes dist: "distinct (map job_id jobs)"
    and deq: "dequeue t jobs = (Some job, q)"
  shows "\<exists>row. job_by_id (job_id job) jobs = Some row \<and> job_status row = Pending \<and>
           job_by_id (job_id job) (fail u (job_id job) e m q)
             = Some (row\<lparr>job_status := (if job_attempts row + 1 < m then Pending else Failed),
                         job_attempts := job_attempts row + 1,
                         job_error := Some e, job_updatedAt := u\<rparr>) \<and>
           distinct (map job_id (fail u (job_id job) e m q))"
proof -
  from dequeue_Some[OF deq] obtain row where
    row: "row \<in> set jobs" "job_status row = Pending"
      "job = row\<lparr>job_attempts := job_attempts row + 1\<rparr>"
      "q = sql_update (\<lambda>j. job_id j = job_id row)
                     (\<lambda>j. j\<lparr>job_status := Processing, job_attempts := job_attempts j + 1,
                            job_updatedAt := t\<rparr>) jobs"
    by blast
  have id: "job_id job = job_id row" using row(3) by simp
  have look: "job_by_id (job_id row) jobs = Some row"
    using dist row(1) by (rule job_by_id_distinct)
  have inq: "job_by_id (job_id row) q
       = Some (row\<lparr>job_status := Processing, job_attempts := job_attempts row + 1,
                            job_updatedAt := t\<rparr>)"
    unfolding row(4) using look by (simp add: job_by_id_sql_update_same)
  have "job_by_id (job_id row) (fail u (job_id row) e m q)
             = Some (row\<lparr>job_status := (if job_attempts row + 1 < m then Pending else Failed),
                         job_attempts := job_attempts row + 1,
                         job_error := Some e, job_updatedAt := u\<rparr>)"
    using inq by (simp add: fail_def job_by_id_sql_update_same)
  moreover have "map job_id (fail u (job_id row) e m q) = map job_id jobs"
    unfolding row(4) by (simp add: fail_def sql_update_ids)
  ultimately show ?thesis using look row(2) id dist by simp
qed

lemma fail_rule:
  assumes "job_by_id jobId jobs = Some j"
  shows "job_by_id jobId (fail now jobId err maxRetries jobs)
           = Some (j\<lparr>job_status := (if job_attempts j < maxRetries then Pending else Failed),
                      job_error := Some err, job_updatedAt := now\<rparr>)"
proof -
  from assms have "job_id j = jobId" by (simp add: job_by_id_Some_id)
  with assms show ?thesis
    by (simp add: fail_def job_by_id_sql_update_same)
qed


section \<open>A job that is not pending is left alone\<close>

lemma foldr_max_ge: "j \<in> set jobs \<Longrightarrow> job_id j \<le> foldr max (map job_id jobs) 0"
  by (induction jobs) (auto simp: max_def)

lemma next_id_fresh: "j \<in> set jobs \<Longrightarrow> job_id j < next_id jobs"
  unfolding next_id_def using foldr_max_ge[of j jobs] by simp

lemma job_by_id_append:
  "job_by_id i jobs = Some r \<Longrightarrow> job_by_id i (jobs @ extra) = Some r"
  by (induction jobs) (auto simp: job_by_id_def)

lemma enqueue_keeps:
  assumes "distinct (map job_id jobs)" and "job_by_id i jobs = Some r"
  shows "distinct (map job_id (snd (enqueue now a b c d e jobs)))
         \<and> job_by_id i (snd (enqueue now a b c d e jobs)) = Some r"
proof -
  have "next_id jobs \<notin> job_id ` set jobs"
    using next_id_fresh by fastforce
  with assms show ?thesis
    by (simp add: enqueue_def Let_def job_by_id_append)
qed

lemma dequeue_keeps:
  assumes dist: "distinct (map job_id jobs)"
    and look: "job_by_id i jobs = Some r" and st: "job_status r \<noteq> Pending"
    and deq: "dequeue t jobs = (claimed, jobs')"
  shows "distinct (map job_id jobs') \<and> job_by_id i jobs' = Some r \<and>
         (\<forall>job. claimed = Some job \<longrightarrow> job_id job \<noteq> i)"
proof (cases claimed)
  case None
  with deq have "jobs' = jobs"
    by (auto simp: dequeue_def Let_def split: list.splits)
  with dist look None show ?thesis by simp
next
  case (Some job)
  with dequeue_Some[of t jobs job jobs'] deq obtain row where
    row: "row \<in> set jobs" "job_status row = Pending"
      "job = row\<lparr>job_attempts := job_attempts row + 1\<rparr>"
      "jobs' = sql_update (\<lambda>j. job_id j = job_id row)
                     (\<lambda>j. j\<lparr>job_status := Processing, job_attempts := job_attempts j + 1,
                            job_updatedAt := t\<rparr>) jobs"
    by blast
  have "job_by_id (job_id row) jobs = Some row"
    using dist row(1) by (rule job_by_id_distinct)
  with look st row(2) have ne: "i \<noteq> job_id row" by auto
  then have "job_by_id i jobs' = job_by_id i jobs"
    unfolding row(4) by (simp add: job_by_id_sql_update_other)
  moreover have "map job_id jobs' = map job_id jobs"
    unfolding row(4) by (simp add: sql_update_ids)
  ultimately show ?thesis using dist look ne Some row(3) by simp
qed

lemma complete_keeps:
  "k \<noteq> i \<Longrightarrow> job_by_id i (complete now k jobs) = job_by_id i jobs"
  by (simp add: complete_def job_by_id_sql_update_other)

lemma fail_keeps:
  "k \<noteq> i \<Longrightarrow> job_by_id i (fail now k e m jobs) = job_by_id i jobs"
  by (simp add: fail_def Let_def job_by_id_sql_update_other)

lemma complete_ids: "map job_id (complete now k jobs) = map job_id jobs"
  by (simp add: complete_def sql_update_ids)

lemma fail_ids: "map job_id (fail now k e m jobs) = map job_id jobs"
  by (simp add: fail_def Let_def sql_update_ids)

lemma poll_keeps:
  assumes dist: "distinct (map job_id jobs)"
    and look: "job_by_id i jobs = Some r" and st: "job_status r \<noteq> Pending"
    and p: "poll env t u (jobs, cache) = (claimed, jobs', cache', calls)"
  shows "distinct (map job_id jobs') \<and> job_by_id i jobs' = Some r \<and>
         (\<forall>job. claimed = Some job \<longrightarrow> job_id job \<noteq> i)"
proof -
  obtain c q where deq: "dequeue t jobs = (c, q)" by (cases "dequeue t jobs")
  note k = dequeue_keeps[OF dist look st deq]
  show ?thesis
  proof (cases c)
    case None
    with p deq have "jobs' = q" "claimed = None" by (simp_all add: poll_def)
    with k show ?thesis by simp
  next
    case (Some job)
    with k have ne: "job_id job \<noteq> i" by simp
    obtain c' calls' res where pj: "processJob env cache job = (c', calls', res)"
      by (cases "processJob env cache job")
    from p deq Some pj have "claimed = Some job"
      and "jobs' = complete u (job_id job) q \<or> jobs' = fail u (job_id job) (projl res) defaultMaxRetries q"
      by (auto simp: poll_def split: sum.splits)
    with k ne show ?thesis
      by (auto simp: complete_keeps fail_keeps complete_ids fail_ids)
  qed
qed

lemma init_keeps:
  assumes "job_by_id i jobs = Some r" and "job_status r \<noteq> Processing"
  shows "job_by_id i (init now jobs) = Some r \<and> map job_id (init now jobs) = map job_id jobs"
proof -
  from assms have "job_by_id i (init now jobs) = Some r"
    by (induction jobs) (auto simp: init_def sql_update_def job_by_id_def split: if_splits)
  then show ?thesis by (simp add: init_def sql_update_ids)
qed

lemma step_keeps:
  assumes "distinct (map job_id (fst s))"
    and "job_by_id i (fst s) = Some r" and "job_status r = Failed"
    and "step e s = (claimed, s')"
  shows "distinct (map job_id (fst s')) \<and> job_by_id i (fst s') = Some r \<and>
         (\<forall>job. claimed = Some job \<longrightarrow> job_id job \<noteq> i)"
proof (cases e)
  case (Enqueue now a b c d tags)
  with assms enqueue_keeps[of "fst s" i r now a b c d tags] show ?thesis by auto
next
  case (Poll env t u)
  obtain cl q ca calls where p: "poll env t u (fst s, snd s) = (cl, q, ca, calls)"
    by (cases "poll env t u (fst s, snd s)")
  with assms Poll have "claimed = cl" "s' = (q, ca)" by auto
  moreover from assms(3) have "job_status r \<noteq> Pending" by simp
  note poll_keeps[OF assms(1) assms(2) this p]
  ultimately show ?thesis by simp
next
  case (Restart now)
  from assms(3) have "job_status r \<noteq> Processing" by simp
  from init_keeps[OF assms(2) this, of now] assms(1) assms(4) Restart
  show ?thesis by auto
qed

lemma run_keeps:
  "distinct (map job_id (fst s)) \<Longrightarrow> job_by_id i (fst s) = Some r \<Longrightarrow> job_status r = Failed
   \<Longrightarrow> run es s = (claimed, s')
   \<Longrightarrow> distinct (map job_id (fst s')) \<and> job_by_id i (fst s') = Some r \<and>
         (\<forall>job \<in> set claimed. job_id job \<noteq> i)"
proof (induction es arbitrary: s claimed s')
  case Nil
  then show ?case by simp
next
  case (Cons e es)
  obtain c s1 where st: "step e s = (c, s1)" by (cases "step e s")
  obtain later s2 where rn: "run es s1 = (later, s2)" by (cases "run es s1")
  note k1 = step_keeps[OF Cons.prems(1) Cons.prems(2) Cons.prems(3) st]
  from k1 have k2: "distinct (map job_id (fst s2)) \<and> job_by_id i (fst s2) = Some r \<and>
         (\<forall>job \<in> set later. job_id job \<noteq> i)"
    using Cons.IH[of s1 later s2] rn Cons.prems(3) by blast
  from Cons.prems(4) st rn have "s' = s2"
    and "claimed = (case c of None \<Rightarrow> [] | Some job \<Rightarrow> [job]) @ later" by auto
  with k1 k2 show ?case by (auto split: option.splits)
qed

lemma pending_count_without:
  assumes "distinct (map job_id jobs)" and "job_by_id i jobs = Some r" and "job_status r \<noteq> Pending"
  shows "getPendingCount jobs
           = length (filter (\<lambda>j. job_status j = Pending \<and> job_id j \<noteq> i) jobs)"
proof -
  have "\<And>j. j \<in> set jobs \<Longrightarrow> job_status j = Pending \<Longrightarrow> job_id j \<noteq> i"
    using assms job_by_id_distinct by fastforce
  then have "filter (\<lambda>j. job_status j = Pending) jobs
               = filter (\<lambda>j. job_status j = Pending \<and> job_id j \<noteq> i) jobs"
    by (intro filter_cong) auto
  then show ?thesis by (simp add: getPendingCount_def)
qed


section \<open>Facts about the parser and the decision\<close>

lemmas string_defs = cleanResponse_def asciiTrim_def stripQuotes_def asciiWhiteSpace_def
  isQuote_def asciiLowerCase_def asciiLowerChar_def

lemma truthy_iff: "truthy x = (\<exists>s. x = Some s \<and> s \<noteq> [])"
  by (cases x) simp_all

lemma truthy_conv: "truthy x = (x \<notin> {None, Some []})"
  by (cases x) simp_all

lemma find_SomeD: "find P xs = Some x \<Longrightarrow> P x \<and> x \<in> set xs"
  by (induction xs) (auto split: if_splits)

lemma find_map_name:
  "find P (map cat_name categories) = map_option cat_name (find (\<lambda>c. P (cat_name c)) categories)"
  by (induction categories) simp_all

lemma find_first_with_name:
  "find (\<lambda>c. Q (cat_name c)) categories = Some c0
     \<Longrightarrow> find (\<lambda>c. Some (cat_name c) = Some (cat_name c0)) categories = Some c0"
proof (induction categories)
  case Nil
  then show ?case by simp
next
  case (Cons a categories)
  show ?case
  proof (cases "Q (cat_name a)")
    case True
    with Cons.prems show ?thesis by simp
  next
    case False
    with Cons.prems have tl: "find (\<lambda>c. Q (cat_name c)) categories = Some c0" by simp
    from find_SomeD[OF tl] have "Q (cat_name c0)" by simp
    with False have "cat_name a \<noteq> cat_name c0" by auto
    with Cons.IH[OF tl] show ?thesis by simp
  qed
qed

lemma parseResponse_category:
  assumes "llm_category (parseResponse toLowerCase trim content validCategories) = Some name"
  shows "name \<in> set validCategories \<and> name \<noteq> []"
proof -
  let ?exact = "find (\<lambda>c. toLowerCase c = toLowerCase (cleanResponse trim content)) validCategories"
  let ?partial = "find (\<lambda>c. str_includes (toLowerCase c) (toLowerCase (cleanResponse trim content)) \<or>
                     str_includes (toLowerCase (cleanResponse trim content)) (toLowerCase c))
                   validCategories"
  from assms have "(truthy ?exact \<and> ?exact = Some name) \<or> (truthy ?partial \<and> ?partial = Some name)"
    by (simp add: parseResponse_def Let_def split: if_splits)
  then show ?thesis
    by (auto dest: find_SomeD)
qed

lemma find_name_present:
  "name \<in> set (map cat_name categories)
     \<Longrightarrow> \<exists>category. find (\<lambda>c. Some (cat_name c) = Some name) categories = Some category
                      \<and> category \<in> set categories \<and> cat_name category = name"
proof -
  assume "name \<in> set (map cat_name categories)"
  then have "find (\<lambda>c. Some (cat_name c) = Some name) categories \<noteq> None"
    by (auto simp: find_None_iff)
  then obtain category where f: "find (\<lambda>c. Some (cat_name c) = Some name) categories = Some category"
    by auto
  from find_SomeD[OF f] f show ?thesis by auto
qed

lemma llmPath_cases:
  "(\<exists>err. llmPath env categories merchantName cache = (cache, Inl err)) \<or>
   llmPath env categories merchantName cache
     = (cache, Inr (Skip ''LLM could not determine category'')) \<or>
   (\<exists>category \<in> set categories.
      llmPath env categories merchantName cache
        = (cache_set (env_now env) merchantName (cat_name category) (cat_id category) cache,
           Inr (Llm (cat_id category) (cat_name category))))"
proof (cases "env_recentTxnsForLlm env")
  case (Inl err)
  then show ?thesis by (simp add: llmPath_def)
next
  case txns: (Inr recentTxns)
  show ?thesis
  proof (cases "env_llmAnswer env")
    case (Inl err)
    with txns show ?thesis by (simp add: llmPath_def categorize_def)
  next
    case (Inr content)
    let ?r = "parseResponse (env_toLowerCase env) (env_trim env) content (map cat_name categories)"
    show ?thesis
    proof (cases "llm_category ?r")
      case None
      with txns Inr show ?thesis by (simp add: llmPath_def categorize_def)
    next
      case (Some name)
      from parseResponse_category[OF Some] have "name \<in> set (map cat_name categories)" "name \<noteq> []"
        by simp_all
      from find_name_present[OF this(1)] obtain category where
        "find (\<lambda>c. Some (cat_name c) = Some name) categories = Some category"
        "category \<in> set categories" by blast
      with txns Inr Some \<open>name \<noteq> []\<close>
      have "llmPath env categories merchantName cache
        = (cache_set (env_now env) merchantName (cat_name category) (cat_id category) cache,
           Inr (Llm (cat_id category) (cat_name category)))"
        by (simp add: llmPath_def categorize_def)
      with \<open>category \<in> set categories\<close> show ?thesis by blast
    qed
  qed
qed

lemma notFoundReason_distinct:
  "notFoundReason name \<noteq> ''LLM could not determine category''"
  "notFoundReason name \<noteq> ''No categories configured in Firefly''"
  by (simp_all add: notFoundReason_def)

lemma llmPath_result:
  "snd (llmPath env categories merchantName cache) \<noteq> Inr (Cache i n) \<and>
   snd (llmPath env categories merchantName cache) \<noteq> Inr (FireflyOverride i n) \<and>
   snd (llmPath env categories merchantName cache) \<noteq> Inr (Skip (notFoundReason name))"
  using llmPath_cases[of env categories merchantName cache] notFoundReason_distinct(1)[of name]
  by auto

lemma analyzeHistory_not_skip: "analyzeHistory cached txns \<noteq> Skip reason"
  by (simp add: analyzeHistory_def split: list.splits)

lemma decideCategory_not_notFound:
  "snd (decideCategory env merchantName cache) \<noteq> Inr (Skip (notFoundReason name))"
proof -
  note l = llmPath_result[THEN conjunct2, THEN conjunct2]
  show ?thesis
    using analyzeHistory_not_skip notFoundReason_distinct(2)[of name]
    by (auto simp: decideCategory_def l split: sum.splits option.splits CategoryDecision.splits)
qed

lemma list_ex_cat_id: "list_ex (\<lambda>c. cat_id c = i) categories = (i \<in> cat_id ` set categories)"
  by (auto simp: list_ex_iff)

lemma spec_resolve_SomeD:
  assumes "spec_resolve toLowerCase proposed categories = Some c"
  shows "c \<in> set categories \<and>
         find (\<lambda>x. Some (cat_name x) = Some (cat_name c)) categories = Some c"
proof -
  let ?P1 = "\<lambda>n. toLowerCase n = toLowerCase proposed"
  let ?P2 = "\<lambda>n. str_includes (toLowerCase n) (toLowerCase proposed) \<or>
                  str_includes (toLowerCase proposed) (toLowerCase n)"
  from assms have "find (\<lambda>c. ?P1 (cat_name c)) categories = Some c
                 \<or> find (\<lambda>c. ?P2 (cat_name c)) categories = Some c"
    by (simp add: spec_resolve_def split: option.splits)
  then show ?thesis
  proof
    assume f: "find (\<lambda>c. ?P1 (cat_name c)) categories = Some c"
    from find_SomeD[OF f] find_first_with_name[of ?P1, OF f] show ?thesis by simp
  next
    assume f: "find (\<lambda>c. ?P2 (cat_name c)) categories = Some c"
    from find_SomeD[OF f] find_first_with_name[of ?P2, OF f] show ?thesis by simp
  qed
qed

lemma map_option_truthy:
  "(\<And>c. x = Some c \<Longrightarrow> cat_name c \<noteq> []) \<Longrightarrow> truthy (map_option cat_name x) = (x \<noteq> None)"
  by (cases x) simp_all

lemma parseResponse_spec:
  assumes names: "\<forall>c \<in> set categories. cat_name c \<noteq> []"
  shows "llm_category (parseResponse toLowerCase trim content (map cat_name categories))
           = map_option cat_name (spec_resolve toLowerCase (cleanResponse trim content) categories)"
proof -
  let ?P1 = "\<lambda>n. toLowerCase n = toLowerCase (cleanResponse trim content)"
  let ?P2 = "\<lambda>n. str_includes (toLowerCase n) (toLowerCase (cleanResponse trim content)) \<or>
                  str_includes (toLowerCase (cleanResponse trim content)) (toLowerCase n)"
  let ?e = "find (\<lambda>c. ?P1 (cat_name c)) categories"
  let ?p = "find (\<lambda>c. ?P2 (cat_name c)) categories"
  have te: "truthy (map_option cat_name ?e) = (?e \<noteq> None)"
    using names by (intro map_option_truthy) (auto dest: find_SomeD)
  have tp: "truthy (map_option cat_name ?p) = (?p \<noteq> None)"
    using names by (intro map_option_truthy) (auto dest: find_SomeD)
  show ?thesis
    unfolding parseResponse_def Let_def find_map_name te tp spec_resolve_def
    by (auto split: option.splits)
qed


section \<open>Claims about the queue\<close>

text \<open>
  C1. A dequeue with a pending job selects the oldest pending row, stores status
  \<^verbatim>\<open>processing\<close> and one more attempt for it (lemma \<open>dequeue_Some\<close>), and without
  a pending job returns nothing and leaves the table as it is (lemma \<open>dequeue_None\<close>).
  The object returned is not the view after the update: it carries the incremented attempt
  count, but its status is the one read before the update, \<^verbatim>\<open>pending\<close>. Here the table
  holds one pending job; the stored row becomes \<^verbatim>\<open>processing\<close> while the returned job
  says \<^verbatim>\<open>pending\<close>.
\<close>

theorem dequeue_returns_status_as_read:
  "dequeue 20
     [\<lparr>job_id = 1, job_transactionId = ''tx-1'', job_merchantName = ''Shop'',
       job_description = ''lunch'', job_amount = ''12.50'', job_tags = [],
       job_status = Pending, job_attempts = 0, job_error = None,
       job_createdAt = 10, job_updatedAt = 10\<rparr>]
   = (Some \<lparr>job_id = 1, job_transactionId = ''tx-1'', job_merchantName = ''Shop'',
            job_description = ''lunch'', job_amount = ''12.50'', job_tags = [],
            job_status = Pending, job_attempts = 1, job_error = None,
            job_createdAt = 10, job_updatedAt = 10\<rparr>,
      [\<lparr>job_id = 1, job_transactionId = ''tx-1'', job_merchantName = ''Shop'',
        job_description = ''lunch'', job_amount = ''12.50'', job_tags = [],
        job_status = Processing, job_attempts = 1, job_error = None,
        job_createdAt = 10, job_updatedAt = 20\<rparr>])"
  by (simp add: dequeue_def sql_update_def)

text \<open>
  C2. \<^verbatim>\<open>fail\<close> with the default \<^verbatim>\<open>maxRetries\<close> of 3 reads the attempt count
  of the job: below 3 the job goes back to \<^verbatim>\<open>pending\<close>, otherwise it becomes
  \<^verbatim>\<open>failed\<close>; the error is recorded in both cases. Hence, in a table with unique ids, a
  job that is claimed and failed three times in a row is \<^verbatim>\<open>failed\<close> after the third
  failure, with 3 attempts and the last error. From then on, whatever jobs are enqueued, however
  the worker polls and however often the process is started again, no dequeue returns the job,
  it stays \<^verbatim>\<open>failed\<close>, and the pending count is the number of the other pending jobs.
\<close>

theorem fail_retry_exhaustion:
  "(job_by_id jobId jobs = Some j \<longrightarrow>
      job_by_id jobId (fail now jobId err defaultMaxRetries jobs)
        = Some (j\<lparr>job_status := (if job_attempts j < 3 then Pending else Failed),
                   job_error := Some err, job_updatedAt := now\<rparr>)) \<and>
   (distinct (map job_id q0) \<and>
    dequeue t1 q0 = (Some j1, q1) \<and>
    dequeue t2 (fail u1 (job_id j1) e1 defaultMaxRetries q1) = (Some j2, q2) \<and>
    job_id j2 = job_id j1 \<and>
    dequeue t3 (fail u2 (job_id j1) e2 defaultMaxRetries q2) = (Some j3, q3) \<and>
    job_id j3 = job_id j1 \<longrightarrow>
    (\<exists>row. job_by_id (job_id j1) (fail u3 (job_id j1) e3 defaultMaxRetries q3) = Some row \<and>
           job_status row = Failed \<and> job_error row = Some e3 \<and> job_attempts row = 3) \<and>
    (\<forall>es cache claimed s'.
       run es (fail u3 (job_id j1) e3 defaultMaxRetries q3, cache) = (claimed, s') \<longrightarrow>
         (\<forall>job \<in> set claimed. job_id job \<noteq> job_id j1) \<and>
         (\<exists>row. job_by_id (job_id j1) (fst s') = Some row \<and> job_status row = Failed) \<and>
         getPendingCount (fst s')
           = length (filter (\<lambda>j. job_status j = Pending \<and> job_id j \<noteq> job_id j1) (fst s'))))"
proof (intro conjI impI)
  assume "job_by_id jobId jobs = Some j"
  then show "job_by_id jobId (fail now jobId err defaultMaxRetries jobs)
        = Some (j\<lparr>job_status := (if job_attempts j < 3 then Pending else Failed),
                   job_error := Some err, job_updatedAt := now\<rparr>)"
    by (simp add: fail_rule defaultMaxRetries_def)
next
  assume hyps: "distinct (map job_id q0) \<and>
    dequeue t1 q0 = (Some j1, q1) \<and>
    dequeue t2 (fail u1 (job_id j1) e1 defaultMaxRetries q1) = (Some j2, q2) \<and>
    job_id j2 = job_id j1 \<and>
    dequeue t3 (fail u2 (job_id j1) e2 defaultMaxRetries q2) = (Some j3, q3) \<and>
    job_id j3 = job_id j1"
  let ?i = "job_id j1"
  let ?F1 = "fail u1 ?i e1 defaultMaxRetries q1"
  let ?F2 = "fail u2 ?i e2 defaultMaxRetries q2"
  let ?F3 = "fail u3 ?i e3 defaultMaxRetries q3"
  from hyps have d0: "distinct (map job_id q0)" and c1: "dequeue t1 q0 = (Some j1, q1)"
    and c2: "dequeue t2 ?F1 = (Some j2, q2)" and i2: "job_id j2 = ?i"
    and c3: "dequeue t3 ?F2 = (Some j3, q3)" and i3: "job_id j3 = ?i"
    by simp_all
  from claim_then_fail[OF d0 c1, of u1 e1 defaultMaxRetries] obtain row1 where
    r1: "job_by_id ?i ?F1
           = Some (row1\<lparr>job_status := (if job_attempts row1 + 1 < defaultMaxRetries
                                        then Pending else Failed),
                        job_attempts := job_attempts row1 + 1,
                        job_error := Some e1, job_updatedAt := u1\<rparr>)"
    and d1: "distinct (map job_id ?F1)"
    by blast
  from claim_then_fail[OF d1 c2, of u2 e2 defaultMaxRetries] i2 obtain row2 where
    l2: "job_by_id ?i ?F1 = Some row2" and p2: "job_status row2 = Pending"
    and r2: "job_by_id ?i ?F2
           = Some (row2\<lparr>job_status := (if job_attempts row2 + 1 < defaultMaxRetries
                                        then Pending else Failed),
                        job_attempts := job_attempts row2 + 1,
                        job_error := Some e2, job_updatedAt := u2\<rparr>)"
    and d2: "distinct (map job_id ?F2)"
    by auto
  from r1 l2 have a2: "job_attempts row2 = job_attempts row1 + 1" by auto
  from claim_then_fail[OF d2 c3, of u3 e3 defaultMaxRetries] i3 obtain row3 where
    l3: "job_by_id ?i ?F2 = Some row3" and p3: "job_status row3 = Pending"
    and r3: "job_by_id ?i ?F3
           = Some (row3\<lparr>job_status := (if job_attempts row3 + 1 < defaultMaxRetries
                                        then Pending else Failed),
                        job_attempts := job_attempts row3 + 1,
                        job_error := Some e3, job_updatedAt := u3\<rparr>)"
    and d3: "distinct (map job_id ?F3)"
    by auto
  from r2 l3 have a3: "job_attempts row3 = job_attempts row2 + 1"
    and s3: "job_status row3 = (if job_attempts row2 + 1 < defaultMaxRetries
                                 then Pending else Failed)" by auto
  from s3 p3 have "job_attempts row2 + 1 < defaultMaxRetries"
    by (simp split: if_splits)
  with a2 a3 have att: "job_attempts row3 = 2"
    by (simp add: defaultMaxRetries_def)
  let ?final = "row3\<lparr>job_status := Failed, job_attempts := 3,
                        job_error := Some e3, job_updatedAt := u3\<rparr>"
  from r3 att have fin: "job_by_id ?i ?F3 = Some ?final"
    by (simp add: defaultMaxRetries_def)
  then show "\<exists>row. job_by_id ?i ?F3 = Some row \<and>
           job_status row = Failed \<and> job_error row = Some e3 \<and> job_attempts row = 3"
    by simp
  show "\<forall>es cache claimed s'.
       run es (?F3, cache) = (claimed, s') \<longrightarrow>
         (\<forall>job \<in> set claimed. job_id job \<noteq> ?i) \<and>
         (\<exists>row. job_by_id ?i (fst s') = Some row \<and> job_status row = Failed) \<and>
         getPendingCount (fst s')
           = length (filter (\<lambda>j. job_status j = Pending \<and> job_id j \<noteq> ?i) (fst s'))"
  proof (intro allI impI)
    fix es cache claimed s'
    assume rn: "run es (?F3, cache) = (claimed, s')"
    have np: "job_status ?final \<noteq> Pending" by simp
    have fl: "job_status ?final = Failed" by simp
    from run_keeps[of "(?F3, cache)" ?i ?final es claimed s'] d3 fin rn fl
    have k: "distinct (map job_id (fst s'))" "job_by_id ?i (fst s') = Some ?final"
      "\<forall>job \<in> set claimed. job_id job \<noteq> ?i"
      by simp_all
    from pending_count_without[OF k(1) k(2) np] k
    show "(\<forall>job \<in> set claimed. job_id job \<noteq> ?i) \<and>
         (\<exists>row. job_by_id ?i (fst s') = Some row \<and> job_status row = Failed) \<and>
         getPendingCount (fst s')
           = length (filter (\<lambda>j. job_status j = Pending \<and> job_id j \<noteq> ?i) (fst s'))"
      by simp
  qed
qed

theorem fail_retry_exhaustion_witness:
  "dequeue 20 [\<lparr>job_id = 1, job_transactionId = ''tx-1'', job_merchantName = ''Shop'',
      job_description = ''lunch'', job_amount = ''12.50'', job_tags = [],
      job_status = Pending, job_attempts = 0, job_error = None,
      job_createdAt = 10, job_updatedAt = 10\<rparr>]
     = (Some \<lparr>job_id = 1, job_transactionId = ''tx-1'', job_merchantName = ''Shop'',
      job_description = ''lunch'', job_amount = ''12.50'', job_tags = [],
      job_status = Pending, job_attempts = 1, job_error = None,
      job_createdAt = 10, job_updatedAt = 10\<rparr>,
        [\<lparr>job_id = 1, job_transactionId = ''tx-1'', job_merchantName = ''Shop'',
      job_description = ''lunch'', job_amount = ''12.50'', job_tags = [],
      job_status = Processing, job_attempts = 1, job_error = None,
      job_createdAt = 10, job_updatedAt = 20\<rparr>]) \<and>
   dequeue 22 (fail 21 1 ''e1'' defaultMaxRetries [\<lparr>job_id = 1, job_transactionId = ''tx-1'', job_merchantName = ''Shop'',
      job_description = ''lunch'', job_amount = ''12.50'', job_tags = [],
      job_status = Processing, job_attempts = 1, job_error = None,
      job_createdAt = 10, job_updatedAt = 20\<rparr>])
     = (Some \<lparr>job_id = 1, job_transactionId = ''tx-1'', job_merchantName = ''Shop'',
      job_description = ''lunch'', job_amount = ''12.50'', job_tags = [],
      job_status = Pending, job_attempts = 2, job_error = Some ''e1'',
      job_createdAt = 10, job_updatedAt = 21\<rparr>,
        [\<lparr>job_id = 1, job_transactionId = ''tx-1'', job_merchantName = ''Shop'',
      job_description = ''lunch'', job_amount = ''12.50'', job_tags = [],
      job_status = Processing, job_attempts = 2, job_error = Some ''e1'',
      job_createdAt = 10, job_updatedAt = 22\<rparr>]) \<and>
   dequeue 24 (fail 23 1 ''e2'' defaultMaxRetries [\<lparr>job_id = 1, job_transactionId = ''tx-1'', job_merchantName = ''Shop'',
      job_description = ''lunch'', job_amount = ''12.50'', job_tags = [],
      job_status = Processing, job_attempts = 2, job_error = Some ''e1'',
      job_createdAt = 10, job_updatedAt = 22\<rparr>])
     = (Some \<lparr>job_id = 1, job_transactionId = ''tx-1'', job_merchantName = ''Shop'',
      job_description = ''lunch'', job_amount = ''12.50'', job_tags = [],
      job_status = Pending, job_attempts = 3, job_error = Some ''e2'',
      job_createdAt = 10, job_updatedAt = 23\<rparr>,
        [\<lparr>job_id = 1, job_transactionId = ''tx-1'', job_merchantName = ''Shop'',
      job_description = ''lunch'', job_amount = ''12.50'', job_tags = [],
      job_status = Processing, job_attempts = 3, job_error = Some ''e2'',
      job_createdAt = 10, job_updatedAt = 24\<rparr>]) \<and>
   job_by_id 1 (fail 25 1 ''e3'' defaultMaxRetries [\<lparr>job_id = 1, job_transactionId = ''tx-1'', job_merchantName = ''Shop'',
      job_description = ''lunch'', job_amount = ''12.50'', job_tags = [],
      job_status = Processing, job_attempts = 3, job_error = Some ''e2'',
      job_createdAt = 10, job_updatedAt = 24\<rparr>])
     = Some \<lparr>job_id = 1, job_transactionId = ''tx-1'', job_merchantName = ''Shop'',
      job_description = ''lunch'', job_amount = ''12.50'', job_tags = [],
      job_status = Failed, job_attempts = 3, job_error = Some ''e3'',
      job_createdAt = 10, job_updatedAt = 25\<rparr> \<and>
   getPendingCount (fail 25 1 ''e3'' defaultMaxRetries [\<lparr>job_id = 1, job_transactionId = ''tx-1'', job_merchantName = ''Shop'',
      job_description = ''lunch'', job_amount = ''12.50'', job_tags = [],
      job_status = Processing, job_attempts = 3, job_error = Some ''e2'',
      job_createdAt = 10, job_updatedAt = 24\<rparr>]) = 0"
proof -
  let ?q0 = "[\<lparr>job_id = 1, job_transactionId = ''tx-1'', job_merchantName = ''Shop'',
      job_description = ''lunch'', job_amount = ''12.50'', job_tags = [],
      job_status = Pending, job_attempts = 0, job_error = None,
      job_createdAt = 10, job_updatedAt = 10\<rparr>]"
  let ?j1 = "\<lparr>job_id = 1, job_transactionId = ''tx-1'', job_merchantName = ''Shop'',
      job_description = ''lunch'', job_amount = ''12.50'', job_tags = [],
      job_status = Pending, job_attempts = 1, job_error = None,
      job_createdAt = 10, job_updatedAt = 10\<rparr>"
  let ?q1 = "[\<lparr>job_id = 1, job_transactionId = ''tx-1'', job_merchantName = ''Shop'',
      job_description = ''lunch'', job_amount = ''12.50'', job_tags = [],
      job_status = Processing, job_attempts = 1, job_error = None,
      job_createdAt = 10, job_updatedAt = 20\<rparr>]"
  let ?j2 = "\<lparr>job_id = 1, job_transactionId = ''tx-1'', job_merchantName = ''Shop'',
      job_description = ''lunch'', job_amount = ''12.50'', job_tags = [],
      job_status = Pending, job_attempts = 2, job_error = Some ''e1'',
      job_createdAt = 10, job_updatedAt = 21\<rparr>"
  let ?q2 = "[\<lparr>job_id = 1, job_transactionId = ''tx-1'', job_merchantName = ''Shop'',
      job_description = ''lunch'', job_amount = ''12.50'', job_tags = [],
      job_status = Processing, job_attempts = 2, job_error = Some ''e1'',
      job_createdAt = 10, job_updatedAt = 22\<rparr>]"
  let ?j3 = "\<lparr>job_id = 1, job_transactionId = ''tx-1'', job_merchantName = ''Shop'',
      job_description = ''lunch'', job_amount = ''12.50'', job_tags = [],
      job_status = Pending, job_attempts = 3, job_error = Some ''e2'',
      job_createdAt = 10, job_updatedAt = 23\<rparr>"
  let ?q3 = "[\<lparr>job_id = 1, job_transactionId = ''tx-1'', job_merchantName = ''Shop'',
      job_description = ''lunch'', job_amount = ''12.50'', job_tags = [],
      job_status = Processing, job_attempts = 3, job_error = Some ''e2'',
      job_createdAt = 10, job_updatedAt = 24\<rparr>]"
  let ?final = "fail 25 1 ''e3'' defaultMaxRetries ?q3"
  have c1: "dequeue 20 ?q0 = (Some ?j1, ?q1)"
    by (simp add: dequeue_def sql_update_def)
  have c2: "dequeue 22 (fail 21 1 ''e1'' defaultMaxRetries ?q1) = (Some ?j2, ?q2)"
    by (simp add: dequeue_def fail_def job_by_id_def defaultMaxRetries_def sql_update_def)
  have c3: "dequeue 24 (fail 23 1 ''e2'' defaultMaxRetries ?q2) = (Some ?j3, ?q3)"
    by (simp add: dequeue_def fail_def job_by_id_def defaultMaxRetries_def sql_update_def)
  have hyps: "distinct (map job_id ?q0) \<and>
    dequeue 20 ?q0 = (Some ?j1, ?q1) \<and>
    dequeue 22 (fail 21 (job_id ?j1) ''e1'' defaultMaxRetries ?q1) = (Some ?j2, ?q2) \<and>
    job_id ?j2 = job_id ?j1 \<and>
    dequeue 24 (fail 23 (job_id ?j1) ''e2'' defaultMaxRetries ?q2) = (Some ?j3, ?q3) \<and>
    job_id ?j3 = job_id ?j1"
    using c1 c2 c3 by simp
  note concl = fail_retry_exhaustion[THEN conjunct2, rule_format, OF hyps, of 25 "''e3''"]
  have present: "job_by_id 1 ?q3 = Some (hd ?q3)"
    by (simp add: job_by_id_def)
  from fail_retry_exhaustion[THEN conjunct1, rule_format, OF present, of 25 "''e3''"]
  have look: "job_by_id 1 ?final = Some \<lparr>job_id = 1, job_transactionId = ''tx-1'', job_merchantName = ''Shop'',
      job_description = ''lunch'', job_amount = ''12.50'', job_tags = [],
      job_status = Failed, job_attempts = 3, job_error = Some ''e3'',
      job_createdAt = 10, job_updatedAt = 25\<rparr>"
    by simp
  have rn: "run [] (?final, Map.empty) = ([], (?final, Map.empty))" by simp
  from concl have "\<And>es cache claimed s'. run es (fail 25 (job_id ?j1) ''e3'' defaultMaxRetries ?q3, cache) = (claimed, s') \<Longrightarrow>
      getPendingCount (fst s')
           = length (filter (\<lambda>j. job_status j = Pending \<and> job_id j \<noteq> job_id ?j1) (fst s'))"
    by blast
  from this[of "[]" Map.empty "[]" "(?final, Map.empty)"]
  have "getPendingCount ?final
           = length (filter (\<lambda>j. job_status j = Pending \<and> job_id j \<noteq> job_id ?j1) ?final)"
    by simp
  also have "\<dots> = 0"
    by (simp add: fail_def job_by_id_def defaultMaxRetries_def sql_update_def)
  finally have cnt: "getPendingCount ?final = 0" .
  from c1 c2 c3 look cnt show ?thesis by simp
qed

text \<open>
  C3, as stated, fails: \<^verbatim>\<open>complete\<close> on a job that is already \<^verbatim>\<open>failed\<close> is not a
  no-op, the job becomes \<^verbatim>\<open>completed\<close>.
\<close>

theorem complete_failed_job_counterexample:
  "complete 9 1
     [\<lparr>job_id = 1, job_transactionId = ''tx-1'', job_merchantName = ''Shop'',
       job_description = ''lunch'', job_amount = ''12.50'', job_tags = [],
       job_status = Failed, job_attempts = 3, job_error = Some ''timeout'',
       job_createdAt = 1, job_updatedAt = 5\<rparr>]
   = [\<lparr>job_id = 1, job_transactionId = ''tx-1'', job_merchantName = ''Shop'',
       job_description = ''lunch'', job_amount = ''12.50'', job_tags = [],
       job_status = Completed, job_attempts = 3, job_error = Some ''timeout'',
       job_createdAt = 1, job_updatedAt = 9\<rparr>]
   \<and> complete 9 1
     [\<lparr>job_id = 1, job_transactionId = ''tx-1'', job_merchantName = ''Shop'',
       job_description = ''lunch'', job_amount = ''12.50'', job_tags = [],
       job_status = Failed, job_attempts = 3, job_error = Some ''timeout'',
       job_createdAt = 1, job_updatedAt = 5\<rparr>]
   \<noteq> [\<lparr>job_id = 1, job_transactionId = ''tx-1'', job_merchantName = ''Shop'',
       job_description = ''lunch'', job_amount = ''12.50'', job_tags = [],
       job_status = Failed, job_attempts = 3, job_error = Some ''timeout'',
       job_createdAt = 1, job_updatedAt = 5\<rparr>]"
  by (simp add: complete_def sql_update_def)

text \<open>
  C3, amended. \<^verbatim>\<open>complete(jobId)\<close> leaves the table unchanged when no job has the id.
  Otherwise the job with the id gets status \<^verbatim>\<open>completed\<close> and a new update time whatever
  its status was (\<^verbatim>\<open>processing\<close>, \<^verbatim>\<open>pending\<close>, \<^verbatim>\<open>completed\<close> or
  \<^verbatim>\<open>failed\<close>), its other fields stay, and the jobs with other ids stay as they are.
\<close>

theorem complete_any_status:
  "(job_by_id jobId jobs = None \<longrightarrow> complete now jobId jobs = jobs) \<and>
   (job_by_id jobId jobs = Some j \<longrightarrow>
      job_by_id jobId (complete now jobId jobs)
        = Some (j\<lparr>job_status := Completed, job_updatedAt := now\<rparr>)) \<and>
   (k \<noteq> jobId \<longrightarrow> job_by_id k (complete now jobId jobs) = job_by_id k jobs)"
proof (intro conjI impI)
  assume "job_by_id jobId jobs = None"
  then show "complete now jobId jobs = jobs"
    unfolding complete_def by (rule sql_update_absent)
next
  assume found: "job_by_id jobId jobs = Some j"
  then have "job_id j = jobId"
    by (simp add: job_by_id_Some_id)
  with found show "job_by_id jobId (complete now jobId jobs)
        = Some (j\<lparr>job_status := Completed, job_updatedAt := now\<rparr>)"
    unfolding complete_def by (simp add: job_by_id_sql_update_same)
next
  assume "k \<noteq> jobId"
  then show "job_by_id k (complete now jobId jobs) = job_by_id k jobs"
    unfolding complete_def by (simp add: job_by_id_sql_update_other)
qed

theorem complete_any_status_witness:
  "job_by_id 2
     [\<lparr>job_id = 1, job_transactionId = ''tx-1'', job_merchantName = ''Shop'',
       job_description = ''lunch'', job_amount = ''12.50'', job_tags = [],
       job_status = Processing, job_attempts = 1, job_error = None,
       job_createdAt = 1, job_updatedAt = 5\<rparr>] = None
   \<and> complete 9 2
     [\<lparr>job_id = 1, job_transactionId = ''tx-1'', job_merchantName = ''Shop'',
       job_description = ''lunch'', job_amount = ''12.50'', job_tags = [],
       job_status = Processing, job_attempts = 1, job_error = None,
       job_createdAt = 1, job_updatedAt = 5\<rparr>]
     = [\<lparr>job_id = 1, job_transactionId = ''tx-1'', job_merchantName = ''Shop'',
       job_description = ''lunch'', job_amount = ''12.50'', job_tags = [],
       job_status = Processing, job_attempts = 1, job_error = None,
       job_createdAt = 1, job_updatedAt = 5\<rparr>]
   \<and> job_by_id 1 (complete 9 1
     [\<lparr>job_id = 1, job_transactionId = ''tx-1'', job_merchantName = ''Shop'',
       job_description = ''lunch'', job_amount = ''12.50'', job_tags = [],
       job_status = Processing, job_attempts = 1, job_error = None,
       job_createdAt = 1, job_updatedAt = 5\<rparr>])
     = Some \<lparr>job_id = 1, job_transactionId = ''tx-1'', job_merchantName = ''Shop'',
       job_description = ''lunch'', job_amount = ''12.50'', job_tags = [],
       job_status = Completed, job_attempts = 1, job_error = None,
       job_createdAt = 1, job_updatedAt = 9\<rparr>"
proof -
  let ?J = "\<lparr>job_id = 1, job_transactionId = ''tx-1'', job_merchantName = ''Shop'',
       job_description = ''lunch'', job_amount = ''12.50'', job_tags = [],
       job_status = Processing, job_attempts = 1, job_error = None,
       job_createdAt = 1, job_updatedAt = 5\<rparr>"
  have absent: "job_by_id 2 [?J] = None" by (simp add: job_by_id_def)
  have present: "job_by_id 1 [?J] = Some ?J" by (simp add: job_by_id_def)
  from complete_any_status[of 2 "[?J]" 9 ?J 1] absent
  have a: "complete 9 2 [?J] = [?J]" by blast
  from complete_any_status[of 1 "[?J]" 9 ?J 2] present
  have b: "job_by_id 1 (complete 9 1 [?J])
             = Some (?J\<lparr>job_status := Completed, job_updatedAt := 9\<rparr>)" by blast
  from absent a b show ?thesis by simp
qed

text \<open>
  C8. \<^verbatim>\<open>init\<close>, which the constructor of the queue service runs once, puts every job
  found \<^verbatim>\<open>processing\<close> back to \<^verbatim>\<open>pending\<close> (with a new update time) and leaves the
  other jobs as they are. Afterwards no job is \<^verbatim>\<open>processing\<close>, the pending count is
  the former pending count plus the number of jobs reset, and there is nothing left to reset.
\<close>

theorem init_resets_processing:
  "(\<forall>j \<in> set (init now jobs). job_status j \<noteq> Processing) \<and>
   length (init now jobs) = length jobs \<and>
   (\<forall>k < length jobs.
      init now jobs ! k =
        (if job_status (jobs ! k) = Processing
         then (jobs ! k)\<lparr>job_status := Pending, job_updatedAt := now\<rparr> else jobs ! k)) \<and>
   getPendingCount (init now jobs) = getPendingCount jobs + init_changes jobs \<and>
   init_changes (init now jobs) = 0"
proof (intro conjI)
  show "\<forall>j \<in> set (init now jobs). job_status j \<noteq> Processing"
    by (auto simp: init_def sql_update_def)
  show "length (init now jobs) = length jobs"
    by (simp add: init_def sql_update_def)
  show "\<forall>k < length jobs.
      init now jobs ! k =
        (if job_status (jobs ! k) = Processing
         then (jobs ! k)\<lparr>job_status := Pending, job_updatedAt := now\<rparr> else jobs ! k)"
    by (simp add: init_def sql_update_def)
  show "getPendingCount (init now jobs) = getPendingCount jobs + init_changes jobs"
    by (induction jobs) (simp_all add: init_def sql_update_def getPendingCount_def init_changes_def)
  show "init_changes (init now jobs) = 0"
    by (simp add: init_def sql_update_def init_changes_def filter_empty_conv)
qed

theorem init_resets_processing_witness:
  "init 30
     [\<lparr>job_id = 1, job_transactionId = ''tx-1'', job_merchantName = ''Shop'',
       job_description = ''lunch'', job_amount = ''12.50'', job_tags = [],
       job_status = Processing, job_attempts = 1, job_error = None,
       job_createdAt = 1, job_updatedAt = 5\<rparr>] ! 0
   = \<lparr>job_id = 1, job_transactionId = ''tx-1'', job_merchantName = ''Shop'',
       job_description = ''lunch'', job_amount = ''12.50'', job_tags = [],
       job_status = Pending, job_attempts = 1, job_error = None,
       job_createdAt = 1, job_updatedAt = 30\<rparr>
   \<and> getPendingCount (init 30
     [\<lparr>job_id = 1, job_transactionId = ''tx-1'', job_merchantName = ''Shop'',
       job_description = ''lunch'', job_amount = ''12.50'', job_tags = [],
       job_status = Processing, job_attempts = 1, job_error = None,
       job_createdAt = 1, job_updatedAt = 5\<rparr>]) = 1"
proof -
  let ?J = "\<lparr>job_id = 1, job_transactionId = ''tx-1'', job_merchantName = ''Shop'',
       job_description = ''lunch'', job_amount = ''12.50'', job_tags = [],
       job_status = Processing, job_attempts = 1, job_error = None,
       job_createdAt = 1, job_updatedAt = 5\<rparr>"
  note inst = init_resets_processing[of 30 "[?J]"]
  from inst have "\<forall>k < length [?J]. init 30 [?J] ! k =
        (if job_status ([?J] ! k) = Processing
         then ([?J] ! k)\<lparr>job_status := Pending, job_updatedAt := 30\<rparr> else [?J] ! k)"
    by blast
  then have a: "init 30 [?J] ! 0 = ?J\<lparr>job_status := Pending, job_updatedAt := 30\<rparr>"
    by simp
  from inst have "getPendingCount (init 30 [?J]) = getPendingCount [?J] + init_changes [?J]"
    by blast
  then have b: "getPendingCount (init 30 [?J]) = 1"
    by (simp add: getPendingCount_def init_changes_def)
  from a b show ?thesis by simp
qed


section \<open>Claims about the decision\<close>

text \<open>
  C4. \<^verbatim>\<open>analyzeHistory\<close> looks at the categorized transactions, those whose category
  id and category name are both present (neither null nor empty), in the order of the history
  list. Without any, the decision is the cached category. When all of them carry the cached
  category name, it is the cached category. When there is at least one and all of them carry
  another name, it is an override with the category id and name of the first of them. When
  some carry the cached name and some do not, it is the cached category.
\<close>

theorem analyzeHistory_cases:
  "categorizedTxns recentTxns
     = filter (\<lambda>tx. tx_categoryId tx \<notin> {None, Some []} \<and> tx_categoryName tx \<notin> {None, Some []})
         recentTxns \<and>
   (categorizedTxns recentTxns = [] \<longrightarrow>
      analyzeHistory cached recentTxns = Cache (cc_categoryId cached) (cc_categoryName cached)) \<and>
   ((\<forall>tx \<in> set (categorizedTxns recentTxns). tx_categoryName tx = Some (cc_categoryName cached)) \<longrightarrow>
      analyzeHistory cached recentTxns = Cache (cc_categoryId cached) (cc_categoryName cached)) \<and>
   (categorizedTxns recentTxns = mostRecent # rest \<and>
    (\<forall>tx \<in> set (categorizedTxns recentTxns). tx_categoryName tx \<noteq> Some (cc_categoryName cached)) \<longrightarrow>
      (\<exists>categoryId categoryName.
         tx_categoryId mostRecent = Some categoryId \<and> tx_categoryName mostRecent = Some categoryName \<and>
         analyzeHistory cached recentTxns = FireflyOverride categoryId categoryName)) \<and>
   ((\<exists>tx \<in> set (categorizedTxns recentTxns). tx_categoryName tx = Some (cc_categoryName cached)) \<and>
    (\<exists>tx \<in> set (categorizedTxns recentTxns). tx_categoryName tx \<noteq> Some (cc_categoryName cached)) \<longrightarrow>
      analyzeHistory cached recentTxns = Cache (cc_categoryId cached) (cc_categoryName cached))"
proof (intro conjI impI)
  show "categorizedTxns recentTxns
     = filter (\<lambda>tx. tx_categoryId tx \<notin> {None, Some []} \<and> tx_categoryName tx \<notin> {None, Some []})
         recentTxns"
    by (simp only: categorizedTxns_def truthy_conv)
next
  assume "categorizedTxns recentTxns = []"
  then show "analyzeHistory cached recentTxns = Cache (cc_categoryId cached) (cc_categoryName cached)"
    by (simp add: analyzeHistory_def)
next
  assume "\<forall>tx \<in> set (categorizedTxns recentTxns). tx_categoryName tx = Some (cc_categoryName cached)"
  then show "analyzeHistory cached recentTxns = Cache (cc_categoryId cached) (cc_categoryName cached)"
    by (simp add: analyzeHistory_def list_all_iff split: list.splits)
next
  assume a: "categorizedTxns recentTxns = mostRecent # rest \<and>
    (\<forall>tx \<in> set (categorizedTxns recentTxns). tx_categoryName tx \<noteq> Some (cc_categoryName cached))"
  then have "mostRecent \<in> set (categorizedTxns recentTxns)" by simp
  then have "truthy (tx_categoryId mostRecent)" "truthy (tx_categoryName mostRecent)"
    by (simp_all add: categorizedTxns_def)
  then obtain categoryId categoryName where
    some: "tx_categoryId mostRecent = Some categoryId" "tx_categoryName mostRecent = Some categoryName"
    by (auto simp: truthy_iff)
  from a have "analyzeHistory cached recentTxns
      = FireflyOverride (the (tx_categoryId mostRecent)) (the (tx_categoryName mostRecent))"
    by (auto simp: analyzeHistory_def list_all_iff)
  with some show "\<exists>categoryId categoryName.
         tx_categoryId mostRecent = Some categoryId \<and> tx_categoryName mostRecent = Some categoryName \<and>
         analyzeHistory cached recentTxns = FireflyOverride categoryId categoryName"
    by simp
next
  assume "(\<exists>tx \<in> set (categorizedTxns recentTxns). tx_categoryName tx = Some (cc_categoryName cached)) \<and>
    (\<exists>tx \<in> set (categorizedTxns recentTxns). tx_categoryName tx \<noteq> Some (cc_categoryName cached))"
  then show "analyzeHistory cached recentTxns = Cache (cc_categoryId cached) (cc_categoryName cached)"
    by (auto simp: analyzeHistory_def list_all_iff split: list.splits)
qed

theorem analyzeHistory_cases_witness:
  "analyzeHistory \<lparr>cc_categoryName = ''Groceries'', cc_categoryId = ''1'', cc_createdAt = 1, cc_updatedAt = 1\<rparr>
     [\<lparr>tx_id = ''t1'', tx_description = ''lunch'', tx_destinationName = ''Shop'',
       tx_categoryId = None, tx_categoryName = None,
       tx_amount = ''12.50'', tx_date = ''2024-01-08''\<rparr>,
     \<lparr>tx_id = ''t2'', tx_description = ''lunch'', tx_destinationName = ''Shop'',
       tx_categoryId = Some ''2'', tx_categoryName = None,
       tx_amount = ''12.50'', tx_date = ''2024-01-07''\<rparr>]
     = Cache ''1'' ''Groceries'' \<and>
   analyzeHistory \<lparr>cc_categoryName = ''Groceries'', cc_categoryId = ''1'', cc_createdAt = 1, cc_updatedAt = 1\<rparr>
     [\<lparr>tx_id = ''t1'', tx_description = ''lunch'', tx_destinationName = ''Shop'',
       tx_categoryId = Some ''1'', tx_categoryName = Some ''Groceries'',
       tx_amount = ''12.50'', tx_date = ''2024-01-08''\<rparr>,
     \<lparr>tx_id = ''t2'', tx_description = ''lunch'', tx_destinationName = ''Shop'',
       tx_categoryId = None, tx_categoryName = None,
       tx_amount = ''12.50'', tx_date = ''2024-01-07''\<rparr>,
     \<lparr>tx_id = ''t3'', tx_description = ''lunch'', tx_destinationName = ''Shop'',
       tx_categoryId = Some ''1'', tx_categoryName = Some ''Groceries'',
       tx_amount = ''12.50'', tx_date = ''2024-01-06''\<rparr>]
     = Cache ''1'' ''Groceries'' \<and>
   analyzeHistory \<lparr>cc_categoryName = ''Groceries'', cc_categoryId = ''1'', cc_createdAt = 1, cc_updatedAt = 1\<rparr>
     [\<lparr>tx_id = ''t1'', tx_description = ''lunch'', tx_destinationName = ''Shop'',
       tx_categoryId = None, tx_categoryName = Some ''Cafe'',
       tx_amount = ''12.50'', tx_date = ''2024-01-08''\<rparr>,
     \<lparr>tx_id = ''t2'', tx_description = ''lunch'', tx_destinationName = ''Shop'',
       tx_categoryId = Some ''2'', tx_categoryName = Some ''Dining'',
       tx_amount = ''12.50'', tx_date = ''2024-01-07''\<rparr>,
     \<lparr>tx_id = ''t3'', tx_description = ''lunch'', tx_destinationName = ''Shop'',
       tx_categoryId = Some ''3'', tx_categoryName = Some ''Cafe'',
       tx_amount = ''12.50'', tx_date = ''2024-01-06''\<rparr>,
     \<lparr>tx_id = ''t4'', tx_description = ''lunch'', tx_destinationName = ''Shop'',
       tx_categoryId = Some ''2'', tx_categoryName = Some ''Dining'',
       tx_amount = ''12.50'', tx_date = ''2024-01-05''\<rparr>]
     = FireflyOverride ''2'' ''Dining'' \<and>
   analyzeHistory \<lparr>cc_categoryName = ''Groceries'', cc_categoryId = ''1'', cc_createdAt = 1, cc_updatedAt = 1\<rparr>
     [\<lparr>tx_id = ''t1'', tx_description = ''lunch'', tx_destinationName = ''Shop'',
       tx_categoryId = Some ''2'', tx_categoryName = Some ''Dining'',
       tx_amount = ''12.50'', tx_date = ''2024-01-08''\<rparr>,
     \<lparr>tx_id = ''t2'', tx_description = ''lunch'', tx_destinationName = ''Shop'',
       tx_categoryId = Some ''1'', tx_categoryName = Some ''Groceries'',
       tx_amount = ''12.50'', tx_date = ''2024-01-07''\<rparr>,
     \<lparr>tx_id = ''t3'', tx_description = ''lunch'', tx_destinationName = ''Shop'',
       tx_categoryId = Some ''2'', tx_categoryName = Some ''Dining'',
       tx_amount = ''12.50'', tx_date = ''2024-01-06''\<rparr>]
     = Cache ''1'' ''Groceries''"
proof -
  let ?cached = "\<lparr>cc_categoryName = ''Groceries'', cc_categoryId = ''1'', cc_createdAt = 1, cc_updatedAt = 1\<rparr>"
  let ?none = "[\<lparr>tx_id = ''t1'', tx_description = ''lunch'', tx_destinationName = ''Shop'',
       tx_categoryId = None, tx_categoryName = None,
       tx_amount = ''12.50'', tx_date = ''2024-01-08''\<rparr>,
     \<lparr>tx_id = ''t2'', tx_description = ''lunch'', tx_destinationName = ''Shop'',
       tx_categoryId = Some ''2'', tx_categoryName = None,
       tx_amount = ''12.50'', tx_date = ''2024-01-07''\<rparr>]"
  let ?same = "[\<lparr>tx_id = ''t1'', tx_description = ''lunch'', tx_destinationName = ''Shop'',
       tx_categoryId = Some ''1'', tx_categoryName = Some ''Groceries'',
       tx_amount = ''12.50'', tx_date = ''2024-01-08''\<rparr>,
     \<lparr>tx_id = ''t2'', tx_description = ''lunch'', tx_destinationName = ''Shop'',
       tx_categoryId = None, tx_categoryName = None,
       tx_amount = ''12.50'', tx_date = ''2024-01-07''\<rparr>,
     \<lparr>tx_id = ''t3'', tx_description = ''lunch'', tx_destinationName = ''Shop'',
       tx_categoryId = Some ''1'', tx_categoryName = Some ''Groceries'',
       tx_amount = ''12.50'', tx_date = ''2024-01-06''\<rparr>]"
  let ?diff = "[\<lparr>tx_id = ''t1'', tx_description = ''lunch'', tx_destinationName = ''Shop'',
       tx_categoryId = None, tx_categoryName = Some ''Cafe'',
       tx_amount = ''12.50'', tx_date = ''2024-01-08''\<rparr>,
     \<lparr>tx_id = ''t2'', tx_description = ''lunch'', tx_destinationName = ''Shop'',
       tx_categoryId = Some ''2'', tx_categoryName = Some ''Dining'',
       tx_amount = ''12.50'', tx_date = ''2024-01-07''\<rparr>,
     \<lparr>tx_id = ''t3'', tx_description = ''lunch'', tx_destinationName = ''Shop'',
       tx_categoryId = Some ''3'', tx_categoryName = Some ''Cafe'',
       tx_amount = ''12.50'', tx_date = ''2024-01-06''\<rparr>,
     \<lparr>tx_id = ''t4'', tx_description = ''lunch'', tx_destinationName = ''Shop'',
       tx_categoryId = Some ''2'', tx_categoryName = Some ''Dining'',
       tx_amount = ''12.50'', tx_date = ''2024-01-05''\<rparr>]"
  let ?mix = "[\<lparr>tx_id = ''t1'', tx_description = ''lunch'', tx_destinationName = ''Shop'',
       tx_categoryId = Some ''2'', tx_categoryName = Some ''Dining'',
       tx_amount = ''12.50'', tx_date = ''2024-01-08''\<rparr>,
     \<lparr>tx_id = ''t2'', tx_description = ''lunch'', tx_destinationName = ''Shop'',
       tx_categoryId = Some ''1'', tx_categoryName = Some ''Groceries'',
       tx_amount = ''12.50'', tx_date = ''2024-01-07''\<rparr>,
     \<lparr>tx_id = ''t3'', tx_description = ''lunch'', tx_destinationName = ''Shop'',
       tx_categoryId = Some ''2'', tx_categoryName = Some ''Dining'',
       tx_amount = ''12.50'', tx_date = ''2024-01-06''\<rparr>]"
  let ?t2 = "\<lparr>tx_id = ''t2'', tx_description = ''lunch'', tx_destinationName = ''Shop'',
      tx_categoryId = Some ''2'', tx_categoryName = Some ''Dining'',
      tx_amount = ''12.50'', tx_date = ''2024-01-07''\<rparr>"
  let ?rest = "[\<lparr>tx_id = ''t3'', tx_description = ''lunch'', tx_destinationName = ''Shop'',
       tx_categoryId = Some ''3'', tx_categoryName = Some ''Cafe'',
       tx_amount = ''12.50'', tx_date = ''2024-01-06''\<rparr>,
     \<lparr>tx_id = ''t4'', tx_description = ''lunch'', tx_destinationName = ''Shop'',
       tx_categoryId = Some ''2'', tx_categoryName = Some ''Dining'',
       tx_amount = ''12.50'', tx_date = ''2024-01-05''\<rparr>]"
  have h1: "categorizedTxns ?none = []"
    by (simp add: categorizedTxns_def)
  have h2: "\<forall>tx \<in> set (categorizedTxns ?same). tx_categoryName tx = Some (cc_categoryName ?cached)"
    by (simp add: categorizedTxns_def)
  have h3: "categorizedTxns ?diff = ?t2 # ?rest \<and>
    (\<forall>tx \<in> set (categorizedTxns ?diff). tx_categoryName tx \<noteq> Some (cc_categoryName ?cached))"
    by (simp add: categorizedTxns_def)
  have h4: "(\<exists>tx \<in> set (categorizedTxns ?mix). tx_categoryName tx = Some (cc_categoryName ?cached)) \<and>
    (\<exists>tx \<in> set (categorizedTxns ?mix). tx_categoryName tx \<noteq> Some (cc_categoryName ?cached))"
    by (simp add: categorizedTxns_def)
  from analyzeHistory_cases[of ?none ?cached] h1
  have c1: "analyzeHistory ?cached ?none = Cache (cc_categoryId ?cached) (cc_categoryName ?cached)"
    by blast
  from analyzeHistory_cases[of ?same ?cached] h2
  have c2: "analyzeHistory ?cached ?same = Cache (cc_categoryId ?cached) (cc_categoryName ?cached)"
    by blast
  from analyzeHistory_cases[of ?diff ?cached ?t2 ?rest] h3
  have "\<exists>categoryId categoryName.
         tx_categoryId ?t2 = Some categoryId \<and> tx_categoryName ?t2 = Some categoryName \<and>
         analyzeHistory ?cached ?diff = FireflyOverride categoryId categoryName"
    by blast
  then have c3: "analyzeHistory ?cached ?diff = FireflyOverride ''2'' ''Dining''"
    by simp
  from analyzeHistory_cases[of ?mix ?cached] h4
  have c4: "analyzeHistory ?cached ?mix = Cache (cc_categoryId ?cached) (cc_categoryName ?cached)"
    by blast
  from c1 c2 c3 c4 show ?thesis by simp
qed

text \<open>
  C5, as stated, fails when the fetched category list is empty: the cached category id is
  then absent from the list, yet the decision is \<^verbatim>\<open>skip\<close> at once, the cache entry is
  not deleted and the classifier is not consulted.
\<close>

theorem empty_category_list_counterexample:
  "cache_get [''Shop'' \<mapsto> \<lparr>cc_categoryName = ''Groceries'', cc_categoryId = ''1'', cc_createdAt = 1, cc_updatedAt = 1\<rparr>] ''Shop''
     = Some \<lparr>cc_categoryName = ''Groceries'', cc_categoryId = ''1'', cc_createdAt = 1, cc_updatedAt = 1\<rparr> \<and>
   ''1'' \<notin> set (map cat_id []) \<and>
   decideCategory
     \<lparr>env_toLowerCase = asciiLowerCase, env_trim = asciiTrim,
      env_getCategories = Inr [],
      env_recentTxnsOnHit = Inr [],
      env_recentTxnsForLlm = Inr [], env_llmAnswer = Inr ''Groceries'',
      env_updateError = None, env_tag = ''AI categorized'', env_now = 50\<rparr>
     ''Shop'' [''Shop'' \<mapsto> \<lparr>cc_categoryName = ''Groceries'', cc_categoryId = ''1'', cc_createdAt = 1, cc_updatedAt = 1\<rparr>]
   = ([''Shop'' \<mapsto> \<lparr>cc_categoryName = ''Groceries'', cc_categoryId = ''1'', cc_createdAt = 1, cc_updatedAt = 1\<rparr>],
      Inr (Skip ''No categories configured in Firefly''))"
  by (simp add: decideCategory_def cache_get_def)

text \<open>
  C5, amended. When the fetched category list is not empty and the merchant has a cache entry
  whose category id is not in the list, \<^verbatim>\<open>decideCategory\<close> deletes the entry and
  continues as on a cache miss: its result is the result of the classifier path run on the
  cache without the entry. The decision is never a cache decision, and afterwards the
  merchant has no entry or a new one whose category id is in the list. When the fetched list is
  empty, the decision is \<^verbatim>\<open>skip\<close> at once and the cache is left as it is.
\<close>

theorem stale_cache_entry_invalidated:
  assumes cats: "env_getCategories env = Inr categories"
    and hit: "cache_get cache merchantName = Some cached"
    and stale: "cc_categoryId cached \<notin> cat_id ` set categories"
  shows "(categories \<noteq> [] \<longrightarrow>
           decideCategory env merchantName cache
             = llmPath env categories merchantName (invalidate merchantName cache) \<and>
           (\<forall>i n. snd (decideCategory env merchantName cache) \<noteq> Inr (Cache i n)) \<and>
           (fst (decideCategory env merchantName cache) merchantName = None \<or>
            (\<exists>entry. fst (decideCategory env merchantName cache) merchantName = Some entry \<and>
                     cc_categoryId entry \<in> cat_id ` set categories)) \<and>
           fst (decideCategory env merchantName cache) merchantName \<noteq> Some cached) \<and>
         (categories = [] \<longrightarrow>
           decideCategory env merchantName cache
             = (cache, Inr (Skip ''No categories configured in Firefly'')))"
proof (rule conjI; rule impI)
  assume "categories = []"
  with cats show "decideCategory env merchantName cache
             = (cache, Inr (Skip ''No categories configured in Firefly''))"
    by (simp add: decideCategory_def)
next
  assume nonempty: "categories \<noteq> []"
  let ?inv = "invalidate merchantName cache"
  have eq: "decideCategory env merchantName cache = llmPath env categories merchantName ?inv"
    using cats nonempty hit stale by (simp add: decideCategory_def list_ex_cat_id)
  have noCache: "\<forall>i n. snd (decideCategory env merchantName cache) \<noteq> Inr (Cache i n)"
    unfolding eq using llmPath_result by blast
  have gone: "?inv merchantName = None" by (simp add: invalidate_def)
  from llmPath_cases[of env categories merchantName ?inv]
  have entry: "fst (llmPath env categories merchantName ?inv) merchantName = None \<or>
          (\<exists>entry. fst (llmPath env categories merchantName ?inv) merchantName = Some entry \<and>
                   cc_categoryId entry \<in> cat_id ` set categories)"
  proof (elim disjE exE bexE)
    fix err assume "llmPath env categories merchantName ?inv = (?inv, Inl err)"
    with gone show ?thesis by simp
  next
    assume "llmPath env categories merchantName ?inv
              = (?inv, Inr (Skip ''LLM could not determine category''))"
    with gone show ?thesis by simp
  next
    fix category assume "category \<in> set categories"
      and "llmPath env categories merchantName ?inv
        = (cache_set (env_now env) merchantName (cat_name category) (cat_id category) ?inv,
           Inr (Llm (cat_id category) (cat_name category)))"
    with gone show ?thesis by (simp add: cache_set_def)
  qed
  from entry stale have "fst (llmPath env categories merchantName ?inv) merchantName \<noteq> Some cached"
    by auto
  with eq noCache entry
  show "decideCategory env merchantName cache
             = llmPath env categories merchantName (invalidate merchantName cache) \<and>
           (\<forall>i n. snd (decideCategory env merchantName cache) \<noteq> Inr (Cache i n)) \<and>
           (fst (decideCategory env merchantName cache) merchantName = None \<or>
            (\<exists>entry. fst (decideCategory env merchantName cache) merchantName = Some entry \<and>
                     cc_categoryId entry \<in> cat_id ` set categories)) \<and>
           fst (decideCategory env merchantName cache) merchantName \<noteq> Some cached"
    by simp
qed

theorem stale_cache_entry_invalidated_witness:
  "decideCategory
     \<lparr>env_toLowerCase = asciiLowerCase, env_trim = asciiTrim,
      env_getCategories = Inr [\<lparr>cat_id = ''2'', cat_name = ''Dining''\<rparr>],
      env_recentTxnsOnHit = Inr [],
      env_recentTxnsForLlm = Inr [], env_llmAnswer = Inr ''dining'',
      env_updateError = None, env_tag = ''AI categorized'', env_now = 50\<rparr>
     ''Shop'' [''Shop'' \<mapsto> \<lparr>cc_categoryName = ''Groceries'', cc_categoryId = ''1'', cc_createdAt = 1, cc_updatedAt = 1\<rparr>]
   = ([''Shop'' \<mapsto> \<lparr>cc_categoryName = ''Dining'', cc_categoryId = ''2'', cc_createdAt = 50, cc_updatedAt = 50\<rparr>],
      Inr (Llm ''2'' ''Dining'')) \<and>
   decideCategory
     \<lparr>env_toLowerCase = asciiLowerCase, env_trim = asciiTrim,
      env_getCategories = Inr [],
      env_recentTxnsOnHit = Inr [],
      env_recentTxnsForLlm = Inr [], env_llmAnswer = Inr ''dining'',
      env_updateError = None, env_tag = ''AI categorized'', env_now = 50\<rparr>
     ''Shop'' [''Shop'' \<mapsto> \<lparr>cc_categoryName = ''Groceries'', cc_categoryId = ''1'', cc_createdAt = 1, cc_updatedAt = 1\<rparr>]
   = ([''Shop'' \<mapsto> \<lparr>cc_categoryName = ''Groceries'', cc_categoryId = ''1'', cc_createdAt = 1, cc_updatedAt = 1\<rparr>],
      Inr (Skip ''No categories configured in Firefly''))"
proof -
  let ?env = "\<lparr>env_toLowerCase = asciiLowerCase, env_trim = asciiTrim,
      env_getCategories = Inr [\<lparr>cat_id = ''2'', cat_name = ''Dining''\<rparr>],
      env_recentTxnsOnHit = Inr [],
      env_recentTxnsForLlm = Inr [], env_llmAnswer = Inr ''dining'',
      env_updateError = None, env_tag = ''AI categorized'', env_now = 50\<rparr>"
  let ?env' = "\<lparr>env_toLowerCase = asciiLowerCase, env_trim = asciiTrim,
      env_getCategories = Inr [],
      env_recentTxnsOnHit = Inr [],
      env_recentTxnsForLlm = Inr [], env_llmAnswer = Inr ''dining'',
      env_updateError = None, env_tag = ''AI categorized'', env_now = 50\<rparr>"
  let ?cached = "\<lparr>cc_categoryName = ''Groceries'', cc_categoryId = ''1'', cc_createdAt = 1, cc_updatedAt = 1\<rparr>"
  let ?cache = "[''Shop'' \<mapsto> ?cached]"
  let ?cats = "[\<lparr>cat_id = ''2'', cat_name = ''Dining''\<rparr>]"
  have h1: "env_getCategories ?env = Inr ?cats" by simp
  have h2: "?cats \<noteq> []" by simp
  have h3: "cache_get ?cache ''Shop'' = Some ?cached" by (simp add: cache_get_def)
  have h4: "cc_categoryId ?cached \<notin> cat_id ` set ?cats" by simp
  from stale_cache_entry_invalidated[OF h1 h3 h4] h2
  have "decideCategory ?env ''Shop'' ?cache
          = llmPath ?env ?cats ''Shop'' (invalidate ''Shop'' ?cache)"
    by blast
  also have "\<dots> = ([''Shop'' \<mapsto> \<lparr>cc_categoryName = ''Dining'', cc_categoryId = ''2'', cc_createdAt = 50, cc_updatedAt = 50\<rparr>], Inr (Llm ''2'' ''Dining''))"
    by (simp add: llmPath_def categorize_def parseResponse_def string_defs invalidate_def
          cache_set_def)
  finally have first: "decideCategory ?env ''Shop'' ?cache
          = ([''Shop'' \<mapsto> \<lparr>cc_categoryName = ''Dining'', cc_categoryId = ''2'', cc_createdAt = 50, cc_updatedAt = 50\<rparr>], Inr (Llm ''2'' ''Dining''))" .
  have e1: "env_getCategories ?env' = Inr []" by simp
  have e4: "cc_categoryId ?cached \<notin> cat_id ` set []" by simp
  from stale_cache_entry_invalidated[OF e1 h3 e4]
  have second: "decideCategory ?env' ''Shop'' ?cache
          = (?cache, Inr (Skip ''No categories configured in Firefly''))"
    by blast
  from first second show ?thesis by simp
qed

text \<open>
  C6, as stated, fails for a category whose name is empty (\<^verbatim>\<open>getCategories\<close> gives a
  category without a name the name \<^verbatim>\<open>""\<close>). Every text contains the empty text, so by
  the rule of the claim the answer \<^verbatim>\<open>Foo\<close> resolves to a category here; the parser
  tests the match for truthiness, takes the empty name for no match, and the decision is
  \<^verbatim>\<open>skip\<close>.
\<close>

theorem empty_category_name_counterexample:
  "spec_resolve asciiLowerCase (cleanResponse asciiTrim ''Foo'') [\<lparr>cat_id = ''1'', cat_name = ''''\<rparr>, \<lparr>cat_id = ''2'', cat_name = ''Food''\<rparr>]
     = Some \<lparr>cat_id = ''1'', cat_name = ''''\<rparr> \<and>
   decideCategory
     \<lparr>env_toLowerCase = asciiLowerCase, env_trim = asciiTrim,
      env_getCategories = Inr [\<lparr>cat_id = ''1'', cat_name = ''''\<rparr>, \<lparr>cat_id = ''2'', cat_name = ''Food''\<rparr>],
      env_recentTxnsOnHit = Inr [],
      env_recentTxnsForLlm = Inr [], env_llmAnswer = Inr ''Foo'',
      env_updateError = None, env_tag = ''AI categorized'', env_now = 50\<rparr>
     ''Shop'' Map.empty
   = (Map.empty, Inr (Skip ''LLM could not determine category''))"
  by (simp add: spec_resolve_def decideCategory_def cache_get_def llmPath_def categorize_def
        parseResponse_def string_defs)

text \<open>
  C6, amended. When no category of the list has an empty name and the answer of the model,
  trimmed and without a quote at its start and at its end, is not empty, the classifier path
  resolves that text as the rule says: the first category equal to it without regard to case,
  else the first category that contains it or is contained in it without regard to case. If a
  category is resolved, the decision is \<^verbatim>\<open>llm\<close> with the id and name of that category and
  the pair is written to the cache with \<^verbatim>\<open>set\<close>; if none is, the decision is
  \<^verbatim>\<open>skip\<close> and the cache is left as it is. Nothing is said about an answer that is empty
  once cleaned, that is, about the case that no name is proposed.
\<close>

theorem llmPath_resolution:
  assumes "\<forall>c \<in> set categories. cat_name c \<noteq> []"
    and "env_recentTxnsForLlm env = Inr recentTxns"
    and "env_llmAnswer env = Inr content"
    and "cleanResponse (env_trim env) content \<noteq> []"
  shows "llmPath env categories merchantName cache =
           (case spec_resolve (env_toLowerCase env) (cleanResponse (env_trim env) content)
                   categories of
              None \<Rightarrow> (cache, Inr (Skip ''LLM could not determine category''))
            | Some category \<Rightarrow>
                (cache_set (env_now env) merchantName (cat_name category) (cat_id category) cache,
                 Inr (Llm (cat_id category) (cat_name category))))"
proof (cases "spec_resolve (env_toLowerCase env) (cleanResponse (env_trim env) content) categories")
  case None
  with assms(1-3) show ?thesis
    by (simp add: llmPath_def categorize_def parseResponse_spec)
next
  case (Some category)
  from spec_resolve_SomeD[OF Some] assms(1) have
    "find (\<lambda>x. Some (cat_name x) = Some (cat_name category)) categories = Some category"
    "cat_name category \<noteq> []" by auto
  with Some assms(1-3) show ?thesis
    by (simp add: llmPath_def categorize_def parseResponse_spec)
qed

theorem llmPath_resolution_witness:
  "llmPath
     \<lparr>env_toLowerCase = asciiLowerCase, env_trim = asciiTrim,
      env_getCategories = Inr [\<lparr>cat_id = ''1'', cat_name = ''Groceries''\<rparr>, \<lparr>cat_id = ''2'', cat_name = ''Dining''\<rparr>],
      env_recentTxnsOnHit = Inr [],
      env_recentTxnsForLlm = Inr [], env_llmAnswer = Inr '' dinin '',
      env_updateError = None, env_tag = ''AI categorized'', env_now = 50\<rparr>
     [\<lparr>cat_id = ''1'', cat_name = ''Groceries''\<rparr>, \<lparr>cat_id = ''2'', cat_name = ''Dining''\<rparr>]
     ''Shop'' Map.empty
   = ([''Shop'' \<mapsto> \<lparr>cc_categoryName = ''Dining'', cc_categoryId = ''2'', cc_createdAt = 50, cc_updatedAt = 50\<rparr>],
      Inr (Llm ''2'' ''Dining'')) \<and>
   llmPath
     \<lparr>env_toLowerCase = asciiLowerCase, env_trim = asciiTrim,
      env_getCategories = Inr [\<lparr>cat_id = ''1'', cat_name = ''Groceries''\<rparr>, \<lparr>cat_id = ''2'', cat_name = ''Dining''\<rparr>],
      env_recentTxnsOnHit = Inr [],
      env_recentTxnsForLlm = Inr [], env_llmAnswer = Inr ''Utilities'',
      env_updateError = None, env_tag = ''AI categorized'', env_now = 50\<rparr>
     [\<lparr>cat_id = ''1'', cat_name = ''Groceries''\<rparr>, \<lparr>cat_id = ''2'', cat_name = ''Dining''\<rparr>]
     ''Shop'' Map.empty
   = (Map.empty, Inr (Skip ''LLM could not determine category''))"
proof -
  let ?env = "\<lparr>env_toLowerCase = asciiLowerCase, env_trim = asciiTrim,
      env_getCategories = Inr [\<lparr>cat_id = ''1'', cat_name = ''Groceries''\<rparr>, \<lparr>cat_id = ''2'', cat_name = ''Dining''\<rparr>],
      env_recentTxnsOnHit = Inr [],
      env_recentTxnsForLlm = Inr [], env_llmAnswer = Inr '' dinin '',
      env_updateError = None, env_tag = ''AI categorized'', env_now = 50\<rparr>"
  let ?env' = "\<lparr>env_toLowerCase = asciiLowerCase, env_trim = asciiTrim,
      env_getCategories = Inr [\<lparr>cat_id = ''1'', cat_name = ''Groceries''\<rparr>, \<lparr>cat_id = ''2'', cat_name = ''Dining''\<rparr>],
      env_recentTxnsOnHit = Inr [],
      env_recentTxnsForLlm = Inr [], env_llmAnswer = Inr ''Utilities'',
      env_updateError = None, env_tag = ''AI categorized'', env_now = 50\<rparr>"
  let ?cats = "[\<lparr>cat_id = ''1'', cat_name = ''Groceries''\<rparr>, \<lparr>cat_id = ''2'', cat_name = ''Dining''\<rparr>]"
  have h1: "\<forall>c \<in> set ?cats. cat_name c \<noteq> []" by simp
  have h2: "env_recentTxnsForLlm ?env = Inr []" by simp
  have h3: "env_llmAnswer ?env = Inr '' dinin ''" by simp
  have h4: "cleanResponse (env_trim ?env) '' dinin '' \<noteq> []" by (simp add: string_defs)
  have r: "spec_resolve (env_toLowerCase ?env) (cleanResponse (env_trim ?env) '' dinin '') ?cats
             = Some \<lparr>cat_id = ''2'', cat_name = ''Dining''\<rparr>"
    by (simp add: spec_resolve_def string_defs)
  from llmPath_resolution[OF h1 h2 h3 h4, of "''Shop''" Map.empty] r
  have first: "llmPath ?env ?cats ''Shop'' Map.empty
          = ([''Shop'' \<mapsto> \<lparr>cc_categoryName = ''Dining'', cc_categoryId = ''2'', cc_createdAt = 50, cc_updatedAt = 50\<rparr>], Inr (Llm ''2'' ''Dining''))"
    by (simp add: cache_set_def)
  have k2: "env_recentTxnsForLlm ?env' = Inr []" by simp
  have k3: "env_llmAnswer ?env' = Inr ''Utilities''" by simp
  have k4: "cleanResponse (env_trim ?env') ''Utilities'' \<noteq> []" by (simp add: string_defs)
  have r': "spec_resolve (env_toLowerCase ?env') (cleanResponse (env_trim ?env') ''Utilities'') ?cats
             = None"
    by (simp add: spec_resolve_def string_defs)
  from llmPath_resolution[OF h1 k2 k3 k4, of "''Shop''" Map.empty] r'
  have second: "llmPath ?env' ?cats ''Shop'' Map.empty
          = (Map.empty, Inr (Skip ''LLM could not determine category''))"
    by simp
  from first second show ?thesis by simp
qed

text \<open>
  The answers of the examples in the specification, against the categories Groceries and
  Dining: \<^verbatim>\<open>Groceries\<close> resolves; \<^verbatim>\<open>grocery stuff\<close> does not (neither text contains
  the other); \<^verbatim>\<open>Utilities\<close> does not.
\<close>

lemma classifier_resolution_examples:
  "snd (decideCategory
     \<lparr>env_toLowerCase = asciiLowerCase, env_trim = asciiTrim,
      env_getCategories = Inr [\<lparr>cat_id = ''1'', cat_name = ''Groceries''\<rparr>, \<lparr>cat_id = ''2'', cat_name = ''Dining''\<rparr>],
      env_recentTxnsOnHit = Inr [],
      env_recentTxnsForLlm = Inr [], env_llmAnswer = Inr ''Groceries'',
      env_updateError = None, env_tag = ''AI categorized'', env_now = 50\<rparr>
     ''Shop'' Map.empty) = Inr (Llm ''1'' ''Groceries'')"
  "snd (decideCategory
     \<lparr>env_toLowerCase = asciiLowerCase, env_trim = asciiTrim,
      env_getCategories = Inr [\<lparr>cat_id = ''1'', cat_name = ''Groceries''\<rparr>, \<lparr>cat_id = ''2'', cat_name = ''Dining''\<rparr>],
      env_recentTxnsOnHit = Inr [],
      env_recentTxnsForLlm = Inr [], env_llmAnswer = Inr ''grocery stuff'',
      env_updateError = None, env_tag = ''AI categorized'', env_now = 50\<rparr>
     ''Shop'' Map.empty) = Inr (Skip ''LLM could not determine category'')"
  "snd (decideCategory
     \<lparr>env_toLowerCase = asciiLowerCase, env_trim = asciiTrim,
      env_getCategories = Inr [\<lparr>cat_id = ''1'', cat_name = ''Groceries''\<rparr>, \<lparr>cat_id = ''2'', cat_name = ''Dining''\<rparr>],
      env_recentTxnsOnHit = Inr [],
      env_recentTxnsForLlm = Inr [], env_llmAnswer = Inr ''Utilities'',
      env_updateError = None, env_tag = ''AI categorized'', env_now = 50\<rparr>
     ''Shop'' Map.empty) = Inr (Skip ''LLM could not determine category'')"
  by (simp_all add: decideCategory_def cache_get_def llmPath_def categorize_def
        parseResponse_def string_defs)

text \<open>
  The case the amended C6 leaves out. \<^verbatim>\<open>categorize\<close> turns a completion without text
  into the answer \<^verbatim>\<open>""\<close>. No name is proposed then, yet the parser does not reach its
  \<^verbatim>\<open>Invalid response\<close> branch: every category name includes the empty text, so the
  partial match takes the first category of the list, the decision is \<^verbatim>\<open>llm\<close> with that
  category and the cache is written. The same holds for an answer of blanks only.
\<close>

lemma empty_answer_takes_first_category:
  "decideCategory
     \<lparr>env_toLowerCase = asciiLowerCase, env_trim = asciiTrim,
      env_getCategories = Inr [\<lparr>cat_id = ''1'', cat_name = ''Groceries''\<rparr>, \<lparr>cat_id = ''2'', cat_name = ''Dining''\<rparr>],
      env_recentTxnsOnHit = Inr [],
      env_recentTxnsForLlm = Inr [], env_llmAnswer = Inr '''',
      env_updateError = None, env_tag = ''AI categorized'', env_now = 50\<rparr>
     ''Shop'' Map.empty
   = ([''Shop'' \<mapsto> \<lparr>cc_categoryName = ''Groceries'', cc_categoryId = ''1'', cc_createdAt = 50, cc_updatedAt = 50\<rparr>],
      Inr (Llm ''1'' ''Groceries''))"
  "decideCategory
     \<lparr>env_toLowerCase = asciiLowerCase, env_trim = asciiTrim,
      env_getCategories = Inr [\<lparr>cat_id = ''1'', cat_name = ''Groceries''\<rparr>, \<lparr>cat_id = ''2'', cat_name = ''Dining''\<rparr>],
      env_recentTxnsOnHit = Inr [],
      env_recentTxnsForLlm = Inr [], env_llmAnswer = Inr ''   '',
      env_updateError = None, env_tag = ''AI categorized'', env_now = 50\<rparr>
     ''Shop'' Map.empty
   = ([''Shop'' \<mapsto> \<lparr>cc_categoryName = ''Groceries'', cc_categoryId = ''1'', cc_createdAt = 50, cc_updatedAt = 50\<rparr>],
      Inr (Llm ''1'' ''Groceries''))"
  by (simp_all add: decideCategory_def cache_get_def llmPath_def categorize_def
        parseResponse_def string_defs cache_set_def)

text \<open>
  C7. On a cache hit with a valid cached category whose history analysis yields an override,
  \<^verbatim>\<open>decideCategory\<close> looks the category id of the override up in the fetched list. If it
  is there, the override is written to the entry of the merchant with
  \<^verbatim>\<open>updateFromOverride\<close> and returned. If it is not, the result is the result of the
  classifier path on the unchanged cache, which is never a cache decision.
\<close>

theorem override_validated:
  assumes cats: "env_getCategories env = Inr categories"
    and nonempty: "categories \<noteq> []"
    and hit: "cache_get cache merchantName = Some cached"
    and valid: "cc_categoryId cached \<in> cat_id ` set categories"
    and txns: "env_recentTxnsOnHit env = Inr recentTxns"
    and ovr: "analyzeHistory cached recentTxns = FireflyOverride categoryId categoryName"
  shows "(categoryId \<in> cat_id ` set categories \<longrightarrow>
            decideCategory env merchantName cache
              = (updateFromOverride (env_now env) merchantName categoryName categoryId cache,
                 Inr (FireflyOverride categoryId categoryName)) \<and>
            updateFromOverride (env_now env) merchantName categoryName categoryId cache merchantName
              = Some (cached\<lparr>cc_categoryName := categoryName, cc_categoryId := categoryId,
                             cc_updatedAt := env_now env\<rparr>)) \<and>
         (categoryId \<notin> cat_id ` set categories \<longrightarrow>
            decideCategory env merchantName cache = llmPath env categories merchantName cache \<and>
            (\<forall>i n. snd (decideCategory env merchantName cache) \<noteq> Inr (Cache i n)))"
proof (intro conjI impI)
  assume "categoryId \<in> cat_id ` set categories"
  with assms show "decideCategory env merchantName cache
              = (updateFromOverride (env_now env) merchantName categoryName categoryId cache,
                 Inr (FireflyOverride categoryId categoryName))"
    by (simp add: decideCategory_def list_ex_cat_id)
next
  from hit show "updateFromOverride (env_now env) merchantName categoryName categoryId cache merchantName
              = Some (cached\<lparr>cc_categoryName := categoryName, cc_categoryId := categoryId,
                             cc_updatedAt := env_now env\<rparr>)"
    by (simp add: updateFromOverride_def cache_get_def)
next
  assume "categoryId \<notin> cat_id ` set categories"
  with assms show eq: "decideCategory env merchantName cache = llmPath env categories merchantName cache"
    by (simp add: decideCategory_def list_ex_cat_id)
  show "\<forall>i n. snd (decideCategory env merchantName cache) \<noteq> Inr (Cache i n)"
    unfolding eq using llmPath_result by blast
qed

theorem override_validated_witness:
  "decideCategory
     \<lparr>env_toLowerCase = asciiLowerCase, env_trim = asciiTrim,
      env_getCategories = Inr [\<lparr>cat_id = ''1'', cat_name = ''Groceries''\<rparr>, \<lparr>cat_id = ''2'', cat_name = ''Dining''\<rparr>],
      env_recentTxnsOnHit = Inr [\<lparr>tx_id = ''t1'', tx_description = ''lunch'', tx_destinationName = ''Shop'',
       tx_categoryId = Some ''2'', tx_categoryName = Some ''Dining'',
       tx_amount = ''12.50'', tx_date = ''2024-01-08''\<rparr>],
      env_recentTxnsForLlm = Inr [], env_llmAnswer = Inr ''Groceries'',
      env_updateError = None, env_tag = ''AI categorized'', env_now = 50\<rparr>
     ''Shop'' [''Shop'' \<mapsto> \<lparr>cc_categoryName = ''Groceries'', cc_categoryId = ''1'', cc_createdAt = 1, cc_updatedAt = 1\<rparr>]
   = ([''Shop'' \<mapsto> \<lparr>cc_categoryName = ''Dining'', cc_categoryId = ''2'', cc_createdAt = 1, cc_updatedAt = 50\<rparr>],
      Inr (FireflyOverride ''2'' ''Dining'')) \<and>
   decideCategory
     \<lparr>env_toLowerCase = asciiLowerCase, env_trim = asciiTrim,
      env_getCategories = Inr [\<lparr>cat_id = ''1'', cat_name = ''Groceries''\<rparr>],
      env_recentTxnsOnHit = Inr [\<lparr>tx_id = ''t1'', tx_description = ''lunch'', tx_destinationName = ''Shop'',
       tx_categoryId = Some ''2'', tx_categoryName = Some ''Dining'',
       tx_amount = ''12.50'', tx_date = ''2024-01-08''\<rparr>],
      env_recentTxnsForLlm = Inr [], env_llmAnswer = Inr ''Groceries'',
      env_updateError = None, env_tag = ''AI categorized'', env_now = 50\<rparr>
     ''Shop'' [''Shop'' \<mapsto> \<lparr>cc_categoryName = ''Groceries'', cc_categoryId = ''1'', cc_createdAt = 1, cc_updatedAt = 1\<rparr>]
   = ([''Shop'' \<mapsto> \<lparr>cc_categoryName = ''Groceries'', cc_categoryId = ''1'', cc_createdAt = 1, cc_updatedAt = 50\<rparr>],
      Inr (Llm ''1'' ''Groceries''))"
proof -
  let ?cached = "\<lparr>cc_categoryName = ''Groceries'', cc_categoryId = ''1'', cc_createdAt = 1, cc_updatedAt = 1\<rparr>"
  let ?cache = "[''Shop'' \<mapsto> ?cached]"
  let ?txns = "[\<lparr>tx_id = ''t1'', tx_description = ''lunch'', tx_destinationName = ''Shop'',
       tx_categoryId = Some ''2'', tx_categoryName = Some ''Dining'',
       tx_amount = ''12.50'', tx_date = ''2024-01-08''\<rparr>]"
  let ?env = "\<lparr>env_toLowerCase = asciiLowerCase, env_trim = asciiTrim,
      env_getCategories = Inr [\<lparr>cat_id = ''1'', cat_name = ''Groceries''\<rparr>, \<lparr>cat_id = ''2'', cat_name = ''Dining''\<rparr>],
      env_recentTxnsOnHit = Inr [\<lparr>tx_id = ''t1'', tx_description = ''lunch'', tx_destinationName = ''Shop'',
       tx_categoryId = Some ''2'', tx_categoryName = Some ''Dining'',
       tx_amount = ''12.50'', tx_date = ''2024-01-08''\<rparr>],
      env_recentTxnsForLlm = Inr [], env_llmAnswer = Inr ''Groceries'',
      env_updateError = None, env_tag = ''AI categorized'', env_now = 50\<rparr>"
  let ?env' = "\<lparr>env_toLowerCase = asciiLowerCase, env_trim = asciiTrim,
      env_getCategories = Inr [\<lparr>cat_id = ''1'', cat_name = ''Groceries''\<rparr>],
      env_recentTxnsOnHit = Inr [\<lparr>tx_id = ''t1'', tx_description = ''lunch'', tx_destinationName = ''Shop'',
       tx_categoryId = Some ''2'', tx_categoryName = Some ''Dining'',
       tx_amount = ''12.50'', tx_date = ''2024-01-08''\<rparr>],
      env_recentTxnsForLlm = Inr [], env_llmAnswer = Inr ''Groceries'',
      env_updateError = None, env_tag = ''AI categorized'', env_now = 50\<rparr>"
  have hit: "cache_get ?cache ''Shop'' = Some ?cached" by (simp add: cache_get_def)
  have ovr: "analyzeHistory ?cached ?txns = FireflyOverride ''2'' ''Dining''"
    by (simp add: analyzeHistory_def categorizedTxns_def)
  have a1: "env_getCategories ?env = Inr [\<lparr>cat_id = ''1'', cat_name = ''Groceries''\<rparr>, \<lparr>cat_id = ''2'', cat_name = ''Dining''\<rparr>]" by simp
  have a2: "[\<lparr>cat_id = ''1'', cat_name = ''Groceries''\<rparr>, \<lparr>cat_id = ''2'', cat_name = ''Dining''\<rparr>] \<noteq> []" by simp
  have a3: "cc_categoryId ?cached \<in> cat_id ` set [\<lparr>cat_id = ''1'', cat_name = ''Groceries''\<rparr>, \<lparr>cat_id = ''2'', cat_name = ''Dining''\<rparr>]" by simp
  have a4: "env_recentTxnsOnHit ?env = Inr ?txns" by simp
  have a5: "''2'' \<in> cat_id ` set [\<lparr>cat_id = ''1'', cat_name = ''Groceries''\<rparr>, \<lparr>cat_id = ''2'', cat_name = ''Dining''\<rparr>]" by simp
  from override_validated[OF a1 a2 hit a3 a4 ovr] a5
  have "decideCategory ?env ''Shop'' ?cache
          = (updateFromOverride (env_now ?env) ''Shop'' ''Dining'' ''2'' ?cache,
             Inr (FireflyOverride ''2'' ''Dining''))"
    by blast
  then have first: "decideCategory ?env ''Shop'' ?cache
          = ([''Shop'' \<mapsto> \<lparr>cc_categoryName = ''Dining'', cc_categoryId = ''2'', cc_createdAt = 1, cc_updatedAt = 50\<rparr>], Inr (FireflyOverride ''2'' ''Dining''))"
    by (simp add: updateFromOverride_def)
  have b1: "env_getCategories ?env' = Inr [\<lparr>cat_id = ''1'', cat_name = ''Groceries''\<rparr>]" by simp
  have b2: "[\<lparr>cat_id = ''1'', cat_name = ''Groceries''\<rparr>] \<noteq> []" by simp
  have b3: "cc_categoryId ?cached \<in> cat_id ` set [\<lparr>cat_id = ''1'', cat_name = ''Groceries''\<rparr>]" by simp
  have b4: "env_recentTxnsOnHit ?env' = Inr ?txns" by simp
  have b5: "''2'' \<notin> cat_id ` set [\<lparr>cat_id = ''1'', cat_name = ''Groceries''\<rparr>]" by simp
  from override_validated[OF b1 b2 hit b3 b4 ovr] b5
  have "decideCategory ?env' ''Shop'' ?cache = llmPath ?env' [\<lparr>cat_id = ''1'', cat_name = ''Groceries''\<rparr>] ''Shop'' ?cache"
    by blast
  also have "\<dots> = ([''Shop'' \<mapsto> \<lparr>cc_categoryName = ''Groceries'', cc_categoryId = ''1'', cc_createdAt = 1, cc_updatedAt = 50\<rparr>], Inr (Llm ''1'' ''Groceries''))"
    by (simp add: llmPath_def categorize_def parseResponse_def string_defs cache_set_def)
  finally have second: "decideCategory ?env' ''Shop'' ?cache
          = ([''Shop'' \<mapsto> \<lparr>cc_categoryName = ''Groceries'', cc_categoryId = ''1'', cc_createdAt = 1, cc_updatedAt = 50\<rparr>], Inr (Llm ''1'' ''Groceries''))" .
  from first second show ?thesis by simp
qed

text \<open>
  C10. A category name returned by \<^verbatim>\<open>parseResponse\<close> is an element of the list of
  valid names it was given. Called with the names of the fetched categories, as
  \<^verbatim>\<open>categorize\<close> does, the name it returns is therefore found by the look-up with exact
  equality in \<^verbatim>\<open>decideCategory\<close>, and neither the classifier path nor
  \<^verbatim>\<open>decideCategory\<close> ever returns \<^verbatim>\<open>skip\<close> with the reason that the category
  was not found.
\<close>

theorem parseResponse_returns_valid_category:
  "(llm_category (parseResponse toLowerCase trim content validCategories) = Some name \<longrightarrow>
      name \<in> set validCategories) \<and>
   (llm_category (parseResponse toLowerCase trim content (map cat_name categories)) = Some name \<longrightarrow>
      (\<exists>category. find (\<lambda>c. Some (cat_name c) = Some name) categories = Some category \<and>
                  cat_name category = name)) \<and>
   snd (llmPath env categories merchantName cache) \<noteq> Inr (Skip (notFoundReason name')) \<and>
   snd (decideCategory env merchantName cache) \<noteq> Inr (Skip (notFoundReason name'))"
proof (intro conjI impI)
  assume "llm_category (parseResponse toLowerCase trim content validCategories) = Some name"
  from parseResponse_category[OF this] show "name \<in> set validCategories" ..
next
  assume "llm_category (parseResponse toLowerCase trim content (map cat_name categories)) = Some name"
  from parseResponse_category[OF this] have "name \<in> set (map cat_name categories)" ..
  from find_name_present[OF this]
  show "\<exists>category. find (\<lambda>c. Some (cat_name c) = Some name) categories = Some category \<and>
                  cat_name category = name" by blast
next
  show "snd (llmPath env categories merchantName cache) \<noteq> Inr (Skip (notFoundReason name'))"
    using llmPath_result by blast
next
  show "snd (decideCategory env merchantName cache) \<noteq> Inr (Skip (notFoundReason name'))"
    by (rule decideCategory_not_notFound)
qed

theorem parseResponse_returns_valid_category_witness:
  "llm_category (parseResponse asciiLowerCase asciiTrim ''dining'' [''Groceries'', ''Dining'']) = Some ''Dining'' \<and>
   ''Dining'' \<in> set [''Groceries'', ''Dining''] \<and>
   find (\<lambda>c. Some (cat_name c) = Some ''Dining'') [\<lparr>cat_id = ''1'', cat_name = ''Groceries''\<rparr>, \<lparr>cat_id = ''2'', cat_name = ''Dining''\<rparr>]
     = Some \<lparr>cat_id = ''2'', cat_name = ''Dining''\<rparr>"
proof -
  have h: "llm_category (parseResponse asciiLowerCase asciiTrim ''dining'' [''Groceries'', ''Dining'']) = Some ''Dining''"
    by (simp add: parseResponse_def string_defs)
  have h': "llm_category (parseResponse asciiLowerCase asciiTrim ''dining'' (map cat_name [\<lparr>cat_id = ''1'', cat_name = ''Groceries''\<rparr>, \<lparr>cat_id = ''2'', cat_name = ''Dining''\<rparr>])) = Some ''Dining''"
    using h by simp
  from parseResponse_returns_valid_category[of asciiLowerCase asciiTrim "''dining''"
      "[''Groceries'', ''Dining'']" "''Dining''"] h
  have m: "''Dining'' \<in> set [''Groceries'', ''Dining'']" by blast
  from parseResponse_returns_valid_category[of asciiLowerCase asciiTrim "''dining''" _ "''Dining''" "[\<lparr>cat_id = ''1'', cat_name = ''Groceries''\<rparr>, \<lparr>cat_id = ''2'', cat_name = ''Dining''\<rparr>]"] h'
  have "\<exists>category. find (\<lambda>c. Some (cat_name c) = Some ''Dining'') [\<lparr>cat_id = ''1'', cat_name = ''Groceries''\<rparr>, \<lparr>cat_id = ''2'', cat_name = ''Dining''\<rparr>] = Some category \<and>
          cat_name category = ''Dining''"
    by blast
  then have f: "find (\<lambda>c. Some (cat_name c) = Some ''Dining'') [\<lparr>cat_id = ''1'', cat_name = ''Groceries''\<rparr>, \<lparr>cat_id = ''2'', cat_name = ''Dining''\<rparr>] = Some \<lparr>cat_id = ''2'', cat_name = ''Dining''\<rparr>"
    by simp
  from h m f show ?thesis by blast
qed


section \<open>Claims about the worker\<close>

text \<open>
  C9. When the job claimed by a poll gets the decision \<^verbatim>\<open>skip\<close>, \<^verbatim>\<open>processJob\<close>
  returns without calling the update collaborator, and the poll resolves the job with
  \<^verbatim>\<open>complete\<close>, not with \<^verbatim>\<open>fail\<close>: the stored job is \<^verbatim>\<open>completed\<close>.
\<close>

theorem skip_completes_job:
  assumes deq: "dequeue claimedAt jobs = (Some job, jobs')"
    and skip: "decideCategory env (job_merchantName job) cache = (cache', Inr (Skip reason))"
  shows "processJob env cache job = (cache', [], Inr ()) \<and>
         poll env claimedAt resolvedAt (jobs, cache)
           = (Some job, complete resolvedAt (job_id job) jobs', cache', []) \<and>
         (\<exists>row. job_by_id (job_id job) (complete resolvedAt (job_id job) jobs') = Some row \<and>
                job_status row = Completed)"
proof -
  from skip have pj: "processJob env cache job = (cache', [], Inr ())"
    by (simp add: processJob_def)
  with deq have pl: "poll env claimedAt resolvedAt (jobs, cache)
           = (Some job, complete resolvedAt (job_id job) jobs', cache', [])"
    by (simp add: poll_def)
  from dequeue_Some[OF deq] obtain row where
    row: "row \<in> set jobs" "job = row\<lparr>job_attempts := job_attempts row + 1\<rparr>"
      "jobs' = sql_update (\<lambda>j. job_id j = job_id row)
                     (\<lambda>j. j\<lparr>job_status := Processing, job_attempts := job_attempts j + 1,
                            job_updatedAt := claimedAt\<rparr>) jobs"
    by blast
  from job_by_id_present[OF row(1)] obtain r where r: "job_by_id (job_id row) jobs = Some r"
    by blast
  then have "job_id r = job_id row" by (simp add: job_by_id_Some_id)
  with r have "job_by_id (job_id row) jobs'
          = Some (r\<lparr>job_status := Processing, job_attempts := job_attempts r + 1,
                            job_updatedAt := claimedAt\<rparr>)"
    unfolding row(3) by (simp add: job_by_id_sql_update_same)
  then have "\<exists>row'. job_by_id (job_id row) (complete resolvedAt (job_id row) jobs') = Some row' \<and>
                job_status row' = Completed"
    by (simp add: complete_def job_by_id_sql_update_same \<open>job_id r = job_id row\<close>)
  moreover have "job_id job = job_id row" using row(2) by simp
  ultimately show ?thesis using pj pl by simp
qed

theorem skip_completes_job_witness:
  "poll
     \<lparr>env_toLowerCase = asciiLowerCase, env_trim = asciiTrim,
      env_getCategories = Inr [],
      env_recentTxnsOnHit = Inr [],
      env_recentTxnsForLlm = Inr [], env_llmAnswer = Inr ''Groceries'',
      env_updateError = None, env_tag = ''AI categorized'', env_now = 50\<rparr>
     20 21
     ([\<lparr>job_id = 1, job_transactionId = ''tx-1'', job_merchantName = ''Shop'',
      job_description = ''lunch'', job_amount = ''12.50'', job_tags = [],
      job_status = Pending, job_attempts = 0, job_error = None,
      job_createdAt = 10, job_updatedAt = 10\<rparr>], Map.empty)
   = (Some \<lparr>job_id = 1, job_transactionId = ''tx-1'', job_merchantName = ''Shop'',
      job_description = ''lunch'', job_amount = ''12.50'', job_tags = [],
      job_status = Pending, job_attempts = 1, job_error = None,
      job_createdAt = 10, job_updatedAt = 10\<rparr>,
      [\<lparr>job_id = 1, job_transactionId = ''tx-1'', job_merchantName = ''Shop'',
      job_description = ''lunch'', job_amount = ''12.50'', job_tags = [],
      job_status = Completed, job_attempts = 1, job_error = None,
      job_createdAt = 10, job_updatedAt = 21\<rparr>],
      Map.empty, [])"
proof -
  let ?env = "\<lparr>env_toLowerCase = asciiLowerCase, env_trim = asciiTrim,
      env_getCategories = Inr [],
      env_recentTxnsOnHit = Inr [],
      env_recentTxnsForLlm = Inr [], env_llmAnswer = Inr ''Groceries'',
      env_updateError = None, env_tag = ''AI categorized'', env_now = 50\<rparr>"
  let ?job = "\<lparr>job_id = 1, job_transactionId = ''tx-1'', job_merchantName = ''Shop'',
      job_description = ''lunch'', job_amount = ''12.50'', job_tags = [],
      job_status = Pending, job_attempts = 1, job_error = None,
      job_createdAt = 10, job_updatedAt = 10\<rparr>"
  let ?jobs = "[\<lparr>job_id = 1, job_transactionId = ''tx-1'', job_merchantName = ''Shop'',
      job_description = ''lunch'', job_amount = ''12.50'', job_tags = [],
      job_status = Pending, job_attempts = 0, job_error = None,
      job_createdAt = 10, job_updatedAt = 10\<rparr>]"
  let ?jobs' = "[\<lparr>job_id = 1, job_transactionId = ''tx-1'', job_merchantName = ''Shop'',
      job_description = ''lunch'', job_amount = ''12.50'', job_tags = [],
      job_status = Processing, job_attempts = 1, job_error = None,
      job_createdAt = 10, job_updatedAt = 20\<rparr>]"
  have deq: "dequeue 20 ?jobs = (Some ?job, ?jobs')"
    by (simp add: dequeue_def sql_update_def)
  have skip: "decideCategory ?env (job_merchantName ?job) Map.empty
                = (Map.empty, Inr (Skip ''No categories configured in Firefly''))"
    by (simp add: decideCategory_def)
  from skip_completes_job[OF deq skip, of 21]
  have "poll ?env 20 21 (?jobs, Map.empty)
          = (Some ?job, complete 21 (job_id ?job) ?jobs', Map.empty, [])"
    by blast
  then show ?thesis by (simp add: complete_def sql_update_def)
qed

end
